theory Spec2Isabelle
  imports Complex_Main
begin

section \<open>Todo Store Service (main.py): data model\<close>

text \<open>
  Timestamps are the values \<open>datetime.now()\<close> returns. The store only stores and
  compares them, so a reading of the clock is an integer (microseconds, say) that the
  environment supplies: every call of \<open>datetime.now()\<close> in the source is one argument
  of the function that models the handler.
\<close>

type_synonym datetime = int

text \<open>
  \<open>class Todo(BaseModel)\<close>. The class declares \<open>title: str\<close> and \<open>completed: bool\<close>,
  but \<open>update_todo\<close> assigns with \<open>setattr\<close>, which a pydantic model does not validate
  unless configured to, and the update request may carry \<open>None\<close> for each of its fields.
  The stored fields are therefore optional values: \<open>None\<close> is Python's \<open>None\<close>.
\<close>

record Todo =
  todo_id :: int
  title :: "string option"
  description :: "string option"
  completed :: "bool option"
  created_at :: datetime
  updated_at :: datetime

text \<open>
  \<open>class TodoCreate(BaseModel)\<close>: \<open>title: str\<close>, \<open>description: Optional[str] = None\<close>,
  \<open>completed: bool = False\<close>. A request body gives the title, and may give the other two;
  \<open>TodoCreate\<close> fills in the defaults of the class.
\<close>

record create_body =
  body_title :: string
  body_description :: "string option"
  body_completed :: "bool option"

record TodoCreate =
  tc_title :: string
  tc_description :: "string option"
  tc_completed :: bool

definition TodoCreate :: "create_body \<Rightarrow> TodoCreate" where
  "TodoCreate b =
     \<lparr>tc_title = body_title b,
      tc_description = body_description b,
      tc_completed = (case body_completed b of None \<Rightarrow> False | Some c \<Rightarrow> c)\<rparr>"

text \<open>
  \<open>class TodoUpdate(BaseModel)\<close>: three optional fields with default \<open>None\<close>. A pydantic
  model remembers which fields the request set, and \<open>dict(exclude_unset=True)\<close> reads that:
  a field is \<open>Unset\<close> (the key was not in the body) or \<open>Provided v\<close>, where \<open>v\<close> is
  \<open>None\<close> for an explicit null.
\<close>

datatype 'a field = Unset | Provided "'a option"

record TodoUpdate =
  tu_title :: "string field"
  tu_description :: "string field"
  tu_completed :: "bool field"

text \<open>One entry of the dictionary \<open>update_data\<close>: a field name with its value.\<close>

datatype assignment =
  SetTitle "string option"
| SetDescription "string option"
| SetCompleted "bool option"

definition dict_exclude_unset :: "TodoUpdate \<Rightarrow> assignment list" where
  "dict_exclude_unset u =
     (case tu_title u of Unset \<Rightarrow> [] | Provided v \<Rightarrow> [SetTitle v]) @
     (case tu_description u of Unset \<Rightarrow> [] | Provided v \<Rightarrow> [SetDescription v]) @
     (case tu_completed u of Unset \<Rightarrow> [] | Provided v \<Rightarrow> [SetCompleted v])"

fun setattr :: "assignment \<Rightarrow> Todo \<Rightarrow> Todo" where
  "setattr (SetTitle v) t = t\<lparr>title := v\<rparr>"
| "setattr (SetDescription v) t = t\<lparr>description := v\<rparr>"
| "setattr (SetCompleted v) t = t\<lparr>completed := v\<rparr>"

text \<open>The module's state: the list \<open>todos_db\<close> and the counter \<open>next_id\<close>.\<close>

record store =
  todos_db :: "Todo list"
  next_id :: int

datatype http_error = HTTPException int string

definition not_found :: http_error where
  "not_found = HTTPException 404 ''Todo not found''"

section \<open>Statistics\<close>

text \<open>
  \<open>get_todo_stats\<close> computes \<open>round((completed_todos / total_todos * 100), 2)\<close> in
  Python floats. The three float operations are parameters (true division of two
  integers, a float times an integer, \<open>round\<close> to a number of digits) over a type
  \<open>'f\<close> of floats; the counts and the guard are the source's. The source returns the
  integer \<open>0\<close> when there is no item, a float otherwise.
\<close>

record 'f float_ops =
  truediv :: "int \<Rightarrow> int \<Rightarrow> 'f"
  times_int :: "'f \<Rightarrow> int \<Rightarrow> 'f"
  round_ndigits :: "'f \<Rightarrow> int \<Rightarrow> 'f"

datatype 'f number = IntNum int | FloatNum 'f

record 'f stats =
  total_todos :: int
  completed_todos :: int
  pending_todos :: int
  completion_percentage :: "'f number"

text \<open>Truth value of \<open>todo.completed\<close> in \<open>if todo.completed\<close>: \<open>None\<close> is false.\<close>

definition truthy :: "bool option \<Rightarrow> bool" where
  "truthy c = (case c of None \<Rightarrow> False | Some b \<Rightarrow> b)"

text \<open>\<open>sum(1 for todo in todos_db if todo.completed)\<close>\<close>

fun sum_completed :: "Todo list \<Rightarrow> int" where
  "sum_completed [] = 0"
| "sum_completed (t # ts) = (if truthy (completed t) then 1 else 0) + sum_completed ts"

definition get_todo_stats :: "'f float_ops \<Rightarrow> store \<Rightarrow> 'f stats" where
  "get_todo_stats fo s =
     (let total = int (length (todos_db s));
          done = sum_completed (todos_db s);
          pending = total - done
      in \<lparr>total_todos = total,
          completed_todos = done,
          pending_todos = pending,
          completion_percentage =
            (if total > 0
             then FloatNum (round_ndigits fo (times_int fo (truediv fo done total) 100) 2)
             else IntNum 0)\<rparr>)"

lemma sum_completed_filter:
  "sum_completed ts = int (length (filter (\<lambda>t. completed t = Some True) ts))"
  by (induction ts) (auto simp: truthy_def split: option.splits)

text \<open>
  Claim C1. For every state of the collection, Stats returns: total, the number of
  items; completed, the number of items whose completed flag is true; pending, total
  minus completed; completion_percentage, \<open>round(completed / total * 100, 2)\<close> when
  total is positive and 0 when it is 0. On the empty collection all four are 0.
\<close>

theorem get_todo_stats_fields:
  "total_todos (get_todo_stats fo s) = int (length (todos_db s))
   \<and> completed_todos (get_todo_stats fo s) =
       int (length (filter (\<lambda>t. completed t = Some True) (todos_db s)))
   \<and> pending_todos (get_todo_stats fo s) =
       total_todos (get_todo_stats fo s) - completed_todos (get_todo_stats fo s)
   \<and> completion_percentage (get_todo_stats fo s) =
       (if total_todos (get_todo_stats fo s) > 0
        then FloatNum (round_ndigits fo
               (times_int fo
                  (truediv fo (completed_todos (get_todo_stats fo s))
                     (total_todos (get_todo_stats fo s))) 100) 2)
        else IntNum 0)
   \<and> get_todo_stats fo (s\<lparr>todos_db := []\<rparr>) =
       \<lparr>total_todos = 0, completed_todos = 0, pending_todos = 0,
        completion_percentage = IntNum 0\<rparr>"
  by (simp add: get_todo_stats_def Let_def sum_completed_filter)

section \<open>The handlers of the store\<close>

text \<open>\<open>get_todos\<close> returns the list itself.\<close>

definition get_todos :: "store \<Rightarrow> Todo list" where
  "get_todos s = todos_db s"

text \<open>
  \<open>get_todo\<close>: the first item of the list with the id, else the 404 of the source.
\<close>

fun get_todo_loop :: "Todo list \<Rightarrow> int \<Rightarrow> http_error + Todo" where
  "get_todo_loop [] i = Inl not_found"
| "get_todo_loop (t # ts) i = (if todo_id t = i then Inr t else get_todo_loop ts i)"

definition get_todo :: "store \<Rightarrow> int \<Rightarrow> http_error + Todo" where
  "get_todo s i = get_todo_loop (todos_db s) i"

text \<open>
  \<open>create_todo\<close> calls \<open>datetime.now()\<close> twice, once for \<open>created_at\<close> and once for
  \<open>updated_at\<close>: \<open>t1\<close> and \<open>t2\<close> are the two readings, in that order. It returns the
  new item and the state with the item appended and the counter incremented.
\<close>

definition create_todo :: "store \<Rightarrow> TodoCreate \<Rightarrow> datetime \<Rightarrow> datetime \<Rightarrow> Todo \<times> store" where
  "create_todo s todo t1 t2 =
     (let new_todo =
            \<lparr>todo_id = next_id s,
             title = Some (tc_title todo),
             description = tc_description todo,
             completed = Some (tc_completed todo),
             created_at = t1,
             updated_at = t2\<rparr>
      in (new_todo, s\<lparr>todos_db := todos_db s @ [new_todo], next_id := next_id s + 1\<rparr>))"

text \<open>
  \<open>update_todo\<close>: the loop stops at the first item with the id, assigns every entry of
  \<open>update_data\<close> to it in the order of the dictionary, sets \<open>updated_at\<close> to the clock's
  reading \<open>now\<close> and returns the item; the item is mutated in place, so the list holds
  the updated item at the same index. \<open>None\<close> is the loop running out: the 404.
\<close>

definition apply_update :: "TodoUpdate \<Rightarrow> datetime \<Rightarrow> Todo \<Rightarrow> Todo" where
  "apply_update u now t = (fold setattr (dict_exclude_unset u) t)\<lparr>updated_at := now\<rparr>"

fun update_loop :: "Todo list \<Rightarrow> int \<Rightarrow> TodoUpdate \<Rightarrow> datetime \<Rightarrow> (Todo \<times> Todo list) option" where
  "update_loop [] i u now = None"
| "update_loop (t # ts) i u now =
     (if todo_id t = i then Some (apply_update u now t, apply_update u now t # ts)
      else (case update_loop ts i u now of
              None \<Rightarrow> None
            | Some (r, ts') \<Rightarrow> Some (r, t # ts')))"

definition update_todo :: "store \<Rightarrow> int \<Rightarrow> TodoUpdate \<Rightarrow> datetime \<Rightarrow> (http_error + Todo) \<times> store" where
  "update_todo s i u now =
     (case update_loop (todos_db s) i u now of
        None \<Rightarrow> (Inl not_found, s)
      | Some (r, db) \<Rightarrow> (Inr r, s\<lparr>todos_db := db\<rparr>))"

text \<open>
  \<open>delete_todo\<close>: the loop pops the first item with the id and returns the message
  built from its title; an f-string prints \<open>None\<close> as the text \<open>None\<close>. The source
  returns the dictionary \<open>{"message": ...}\<close>: the model returns the message.
\<close>

definition str_opt :: "string option \<Rightarrow> string" where
  "str_opt v = (case v of None \<Rightarrow> ''None'' | Some s \<Rightarrow> s)"

definition deleted_message :: "Todo \<Rightarrow> string" where
  "deleted_message d =
     ''Todo '' @ [CHR 0x27] @ str_opt (title d) @ [CHR 0x27] @ '' deleted successfully''"

fun delete_loop :: "Todo list \<Rightarrow> int \<Rightarrow> (Todo \<times> Todo list) option" where
  "delete_loop [] i = None"
| "delete_loop (t # ts) i =
     (if todo_id t = i then Some (t, ts)
      else (case delete_loop ts i of
              None \<Rightarrow> None
            | Some (d, ts') \<Rightarrow> Some (d, t # ts')))"

definition delete_todo :: "store \<Rightarrow> int \<Rightarrow> (http_error + string) \<times> store" where
  "delete_todo s i =
     (case delete_loop (todos_db s) i of
        None \<Rightarrow> (Inl not_found, s)
      | Some (d, db) \<Rightarrow> (Inr (deleted_message d), s\<lparr>todos_db := db\<rparr>))"

section \<open>Module initialisation\<close>

text \<open>
  The module starts with an empty list and the counter at 1, then appends one item for
  each entry of \<open>dummy_todos\<close>, reading the clock twice per item: \<open>clock k\<close> is the
  reading of the \<open>k\<close>-th call of \<open>datetime.now()\<close>.
\<close>

definition initial_store :: store where
  "initial_store = \<lparr>todos_db = [], next_id = 1\<rparr>"

definition dummy_todos :: "(string \<times> string \<times> bool) list" where
  "dummy_todos =
     [(''Learn FastAPI'', ''Complete FastAPI tutorial'', False),
      (''Build MCP Server'', ''Create MCP server for Gemini CLI'', False),
      (''Test Integration'', ''Test FastAPI with MCP server'', False),
      (''Deploy Application'', ''Deploy to production'', True),
      (''Write Documentation'', ''Create API documentation'', False)]"

fun seed_loop :: "(string \<times> string \<times> bool) list \<Rightarrow> (nat \<Rightarrow> datetime) \<Rightarrow> nat \<Rightarrow> store \<Rightarrow> store" where
  "seed_loop [] clock k s = s"
| "seed_loop ((ti, de, co) # ds) clock k s =
     seed_loop ds clock (k + 2)
       (s\<lparr>todos_db := todos_db s @
            [\<lparr>todo_id = next_id s, title = Some ti, description = Some de,
              completed = Some co, created_at = clock k, updated_at = clock (k + 1)\<rparr>],
          next_id := next_id s + 1\<rparr>)"

definition startup :: "(nat \<Rightarrow> datetime) \<Rightarrow> store" where
  "startup clock = seed_loop dummy_todos clock 0 initial_store"

section \<open>Sequences of requests\<close>

text \<open>
  One request to the store, with the clock readings its handler takes, and its
  response. \<open>handle\<close> dispatches as the routes of the application do; \<open>exec\<close> serves a
  list of requests one after the other, from a state.
\<close>

datatype request =
  ListAll
| GetStats
| GetById int
| Create create_body datetime datetime
| Update int TodoUpdate datetime
| Delete int

datatype 'f response =
  Todos "Todo list"
| Statistics "'f stats"
| Item Todo
| Message string
| Failed http_error

fun handle :: "'f float_ops \<Rightarrow> store \<Rightarrow> request \<Rightarrow> 'f response \<times> store" where
  "handle fo s ListAll = (Todos (get_todos s), s)"
| "handle fo s GetStats = (Statistics (get_todo_stats fo s), s)"
| "handle fo s (GetById i) =
     (case get_todo s i of Inl e \<Rightarrow> (Failed e, s) | Inr t \<Rightarrow> (Item t, s))"
| "handle fo s (Create b t1 t2) =
     (case create_todo s (TodoCreate b) t1 t2 of (t, s') \<Rightarrow> (Item t, s'))"
| "handle fo s (Update i u now) =
     (case update_todo s i u now of
        (Inl e, s') \<Rightarrow> (Failed e, s')
      | (Inr t, s') \<Rightarrow> (Item t, s'))"
| "handle fo s (Delete i) =
     (case delete_todo s i of
        (Inl e, s') \<Rightarrow> (Failed e, s')
      | (Inr m, s') \<Rightarrow> (Message m, s'))"

fun exec :: "'f float_ops \<Rightarrow> store \<Rightarrow> request list \<Rightarrow> 'f response list \<times> store" where
  "exec fo s [] = ([], s)"
| "exec fo s (r # rs) =
     (case handle fo s r of
        (a, s') \<Rightarrow> (case exec fo s' rs of (as, s'') \<Rightarrow> (a # as, s'')))"

text \<open>The ids the create requests of a run returned, in the order of the run.\<close>

fun created_ids :: "(request \<times> 'f response) list \<Rightarrow> int list" where
  "created_ids [] = []"
| "created_ids ((Create b t1 t2, Item t) # xs) = todo_id t # created_ids xs"
| "created_ids (x # xs) = created_ids xs"

fun is_create :: "request \<Rightarrow> bool" where
  "is_create (Create b t1 t2) = True"
| "is_create r = False"

text \<open>
  The invariant of the store: the ids of the list are pairwise different and all below
  the counter.
\<close>

definition ids :: "store \<Rightarrow> int list" where
  "ids s = map todo_id (todos_db s)"

definition store_ok :: "store \<Rightarrow> bool" where
  "store_ok s = (distinct (ids s) \<and> list_all (\<lambda>i. i < next_id s) (ids s))"

section \<open>Facts about the loops and the invariant\<close>

lemma get_todo_loop_find:
  "get_todo_loop ts i = (case find (\<lambda>t. todo_id t = i) ts of None \<Rightarrow> Inl not_found | Some t \<Rightarrow> Inr t)"
  by (induction ts) auto

lemma get_todo_loop_not_found:
  "get_todo_loop ts i = Inl not_found \<longleftrightarrow> i \<notin> set (map todo_id ts)"
  by (induction ts) auto

lemma todo_id_apply_update [simp]: "todo_id (apply_update u now t) = todo_id t"
  by (simp add: apply_update_def dict_exclude_unset_def split: field.splits)

lemma created_at_apply_update [simp]: "created_at (apply_update u now t) = created_at t"
  by (simp add: apply_update_def dict_exclude_unset_def split: field.splits)

lemma updated_at_apply_update [simp]: "updated_at (apply_update u now t) = now"
  by (simp add: apply_update_def)

lemma title_apply_update:
  "title (apply_update u now t) = (case tu_title u of Unset \<Rightarrow> title t | Provided v \<Rightarrow> v)"
  by (simp add: apply_update_def dict_exclude_unset_def split: field.splits)

lemma description_apply_update:
  "description (apply_update u now t) =
     (case tu_description u of Unset \<Rightarrow> description t | Provided v \<Rightarrow> v)"
  by (simp add: apply_update_def dict_exclude_unset_def split: field.splits)

lemma completed_apply_update:
  "completed (apply_update u now t) =
     (case tu_completed u of Unset \<Rightarrow> completed t | Provided v \<Rightarrow> v)"
  by (simp add: apply_update_def dict_exclude_unset_def split: field.splits)

lemma update_loop_None: "update_loop ts i u now = None \<longleftrightarrow> i \<notin> set (map todo_id ts)"
  by (induction ts) (auto split: option.splits)

lemma update_loop_ids:
  "update_loop ts i u now = Some (r, ts') \<Longrightarrow> map todo_id ts' = map todo_id ts"
  by (induction ts arbitrary: ts') (auto split: option.splits if_splits)

lemma update_loop_Some:
  "update_loop ts i u now = Some (r, ts') \<Longrightarrow>
   \<exists>pre t post. ts = pre @ t # post \<and> i \<notin> set (map todo_id pre) \<and> todo_id t = i
      \<and> r = apply_update u now t \<and> ts' = pre @ r # post"
proof (induction ts arbitrary: ts')
  case Nil
  then show ?case by simp
next
  case (Cons a ts)
  show ?case
  proof (cases "todo_id a = i")
    case True
    with Cons.prems have "r = apply_update u now a" "ts' = r # ts" by auto
    with True show ?thesis by (intro exI[of _ "[]"] exI[of _ a] exI[of _ ts]) simp
  next
    case False
    with Cons.prems obtain ts'' where 1: "update_loop ts i u now = Some (r, ts'')" and 2: "ts' = a # ts''"
      by (auto split: option.splits)
    from Cons.IH[OF 1] obtain pre t post where
      "ts = pre @ t # post" "i \<notin> set (map todo_id pre)" "todo_id t = i"
      "r = apply_update u now t" "ts'' = pre @ r # post" by blast
    with False 2 show ?thesis
      by (intro exI[of _ "a # pre"] exI[of _ t] exI[of _ post]) simp
  qed
qed

lemma delete_loop_None: "delete_loop ts i = None \<longleftrightarrow> i \<notin> set (map todo_id ts)"
  by (induction ts) (auto split: option.splits)

lemma delete_loop_Some:
  "delete_loop ts i = Some (d, ts') \<Longrightarrow>
   \<exists>pre post. ts = pre @ d # post \<and> i \<notin> set (map todo_id pre) \<and> todo_id d = i
      \<and> ts' = pre @ post"
proof (induction ts arbitrary: ts')
  case Nil
  then show ?case by simp
next
  case (Cons a ts)
  show ?case
  proof (cases "todo_id a = i")
    case True
    with Cons.prems have "d = a" "ts' = ts" by auto
    with True show ?thesis by (intro exI[of _ "[]"] exI[of _ ts]) simp
  next
    case False
    with Cons.prems obtain ts'' where 1: "delete_loop ts i = Some (d, ts'')" and 2: "ts' = a # ts''"
      by (auto split: option.splits)
    from Cons.IH[OF 1] obtain pre post where
      "ts = pre @ d # post" "i \<notin> set (map todo_id pre)" "todo_id d = i" "ts'' = pre @ post"
      by blast
    with False 2 show ?thesis
      by (intro exI[of _ "a # pre"] exI[of _ post]) simp
  qed
qed

lemma seed_loop_next_id: "next_id (seed_loop ds clock k s) = next_id s + int (length ds)"
  by (induction ds clock k s rule: seed_loop.induct) auto

lemma seed_loop_ok: "store_ok s \<Longrightarrow> store_ok (seed_loop ds clock k s)"
proof (induction ds clock k s rule: seed_loop.induct)
  case (1 clock k s)
  then show ?case by simp
next
  case (2 ti de co ds clock k s)
  show ?case
    apply (simp only: seed_loop.simps)
    apply (rule 2(1))
    using 2(2) by (auto simp: store_ok_def ids_def list_all_iff)
qed

lemma store_ok_startup: "store_ok (startup clock)"
  unfolding startup_def by (rule seed_loop_ok) (simp add: store_ok_def ids_def initial_store_def)

lemma next_id_startup: "next_id (startup clock) = 6"
  by (simp add: startup_def seed_loop_next_id dummy_todos_def initial_store_def)

lemma update_todo_ids: "ids (snd (update_todo s i u now)) = ids s"
  by (auto simp: update_todo_def ids_def split: option.splits dest: update_loop_ids)

lemma update_todo_next_id: "next_id (snd (update_todo s i u now)) = next_id s"
  by (auto simp: update_todo_def split: option.splits)

lemma delete_todo_next_id: "next_id (snd (delete_todo s i)) = next_id s"
  by (auto simp: delete_todo_def split: option.splits)

lemma delete_todo_ids_subset: "set (ids (snd (delete_todo s i))) \<subseteq> set (ids s)"
  by (auto simp: delete_todo_def ids_def split: option.splits dest!: delete_loop_Some)

lemma delete_todo_distinct: "distinct (ids s) \<Longrightarrow> distinct (ids (snd (delete_todo s i)))"
  by (auto simp: delete_todo_def ids_def split: option.splits dest!: delete_loop_Some)

lemma next_id_handle:
  "next_id (snd (handle fo s r)) = next_id s + (if is_create r then 1 else 0)"
proof (cases r)
  case (Update i u now)
  then show ?thesis
    using update_todo_next_id[of s i u now] by (auto split: prod.splits sum.splits)
next
  case (Delete i)
  then show ?thesis
    using delete_todo_next_id[of s i] by (auto split: prod.splits sum.splits)
qed (auto simp: create_todo_def Let_def split: sum.splits)

lemma store_ok_handle: "store_ok s \<Longrightarrow> store_ok (snd (handle fo s r))"
proof (cases r)
  case (Create b t1 t2)
  assume "store_ok s"
  with Create show ?thesis
    by (auto simp: store_ok_def ids_def create_todo_def Let_def list_all_iff)
next
  case (Update i u now)
  assume "store_ok s"
  with Update show ?thesis
    using update_todo_ids[of s i u now] update_todo_next_id[of s i u now]
    by (auto simp: store_ok_def split: prod.splits sum.splits)
next
  case (Delete i)
  assume "store_ok s"
  with Delete show ?thesis
    using delete_todo_ids_subset[of s i] delete_todo_distinct[of s i] delete_todo_next_id[of s i]
    by (auto simp: store_ok_def list_all_iff split: prod.splits sum.splits)
qed (auto split: sum.splits)

lemma exec_Cons:
  "exec fo s (r # rs) =
     (fst (handle fo s r) # fst (exec fo (snd (handle fo s r)) rs),
      snd (exec fo (snd (handle fo s r)) rs))"
  by (simp split: prod.splits)

lemma store_ok_exec: "store_ok s \<Longrightarrow> store_ok (snd (exec fo s rs))"
  by (induction rs arbitrary: s) (simp_all add: exec_Cons store_ok_handle del: exec.simps(2))

lemma next_id_exec:
  "next_id (snd (exec fo s rs)) = next_id s + int (length (filter is_create rs))"
  by (induction rs arbitrary: s) (simp_all add: exec_Cons next_id_handle del: exec.simps(2))

lemma length_exec: "length (fst (exec fo s rs)) = length rs"
  by (induction rs arbitrary: s) (simp_all add: exec_Cons del: exec.simps(2))

lemma created_ids_Cons:
  "created_ids ((r, fst (handle fo s r)) # xs) =
     (if is_create r then next_id s # created_ids xs else created_ids xs)"
  by (cases r) (auto simp: create_todo_def Let_def split: sum.splits prod.splits)

lemma created_ids_exec:
  "created_ids (zip rs (fst (exec fo s rs))) =
     map (\<lambda>k. next_id s + int k) [0 ..< length (filter is_create rs)]"
proof (induction rs arbitrary: s)
  case Nil
  then show ?case by simp
next
  case (Cons r rs)
  show ?case
  proof (cases "is_create r")
    case True
    have "map (\<lambda>k. next_id s + int k) [0 ..< Suc (length (filter is_create rs))]
          = next_id s # map (\<lambda>k. next_id s + 1 + int k) [0 ..< length (filter is_create rs)]"
      by (simp add: upt_conv_Cons map_Suc_upt[symmetric] del: upt_Suc)
    with True show ?thesis
      by (simp add: exec_Cons created_ids_Cons Cons.IH next_id_handle del: exec.simps(2) upt_Suc)
  next
    case False
    then show ?thesis
      by (simp add: exec_Cons created_ids_Cons Cons.IH next_id_handle del: exec.simps(2))
  qed
qed

lemma increasing_from: "sorted_wrt (<) (map (\<lambda>k. (c::int) + int k) [0 ..< n])"
  by (simp add: sorted_wrt_map sorted_wrt_iff_nth_less)

lemma distinct_from: "distinct (map (\<lambda>k. (c::int) + int k) [0 ..< n])"
  by (simp add: distinct_map inj_on_def)

lemma get_todo_not_found: "get_todo s i = Inl not_found \<longleftrightarrow> i \<notin> set (ids s)"
  by (simp add: get_todo_def ids_def get_todo_loop_not_found)

lemma get_todo_loop_Inl: "get_todo_loop ts i = Inl e \<Longrightarrow> e = not_found"
  by (induction ts) (auto split: if_splits)

lemma get_todo_present: "get_todo s i = Inr d \<Longrightarrow> i \<in> set (ids s)"
  using get_todo_loop_not_found[of "todos_db s" i] by (auto simp: get_todo_def ids_def)

lemma absent_handle:
  "i \<notin> set (ids s) \<Longrightarrow> i < next_id s \<Longrightarrow>
   i \<notin> set (ids (snd (handle fo s r))) \<and> i < next_id (snd (handle fo s r))"
proof (cases r)
  case (Create b t1 t2)
  assume "i \<notin> set (ids s)" "i < next_id s"
  with Create show ?thesis by (auto simp: ids_def create_todo_def Let_def)
next
  case (Update j u now)
  assume "i \<notin> set (ids s)" "i < next_id s"
  with Update show ?thesis
    using update_todo_ids[of s j u now] update_todo_next_id[of s j u now]
    by (auto split: prod.splits sum.splits)
next
  case (Delete j)
  assume "i \<notin> set (ids s)" "i < next_id s"
  with Delete show ?thesis
    using delete_todo_ids_subset[of s j] delete_todo_next_id[of s j]
    by (auto split: prod.splits sum.splits)
qed (auto split: sum.splits)

lemma absent_exec:
  "i \<notin> set (ids s) \<Longrightarrow> i < next_id s \<Longrightarrow> i \<notin> set (ids (snd (exec fo s rs)))"
proof (induction rs arbitrary: s)
  case Nil
  then show ?case by simp
next
  case (Cons r rs)
  from absent_handle[OF Cons.prems, of fo r] Cons.IH[of "snd (handle fo s r)"]
  show ?case by (simp add: exec_Cons del: exec.simps(2))
qed

lemma delete_todo_absent: "delete_todo s i = (Inl not_found, s) \<longleftrightarrow> i \<notin> set (ids s)"
  using delete_loop_None[of "todos_db s" i]
  by (auto simp: delete_todo_def ids_def split: option.splits)

lemma delete_todo_present:
  assumes "get_todo s i = Inr d"
  shows "fst (delete_todo s i) = Inr (deleted_message d)"
    and "todos_db (snd (delete_todo s i)) = remove1 d (todos_db s)"
    and "d \<in> set (todos_db s)" and "todo_id d = i"
proof -
  have *: "get_todo_loop ts i = Inr d \<Longrightarrow>
        delete_loop ts i = Some (d, remove1 d ts) \<and> d \<in> set ts \<and> todo_id d = i" for ts
    by (induction ts) (auto split: if_splits)
  from *[of "todos_db s"] assms
  show "fst (delete_todo s i) = Inr (deleted_message d)"
    and "todos_db (snd (delete_todo s i)) = remove1 d (todos_db s)"
    and "d \<in> set (todos_db s)" and "todo_id d = i"
    by (auto simp: delete_todo_def get_todo_def)
qed

lemma delete_todo_removes:
  assumes "distinct (ids s)"
  shows "i \<notin> set (ids (snd (delete_todo s i)))"
proof (cases "delete_loop (todos_db s) i")
  case None
  then show ?thesis using delete_loop_None[of "todos_db s" i] by (simp add: delete_todo_def ids_def)
next
  case (Some p)
  obtain d ts' where p: "p = (d, ts')" by (cases p)
  from delete_loop_Some[OF Some[unfolded p]] obtain pre post where
    "todos_db s = pre @ d # post" "i \<notin> set (map todo_id pre)" "todo_id d = i" "ts' = pre @ post"
    by blast
  with assms Some p show ?thesis by (auto simp: delete_todo_def ids_def)
qed

lemma update_todo_absent: "i \<notin> set (ids s) \<Longrightarrow> update_todo s i u now = (Inl not_found, s)"
  using update_loop_None[of "todos_db s" i u now] by (simp add: update_todo_def ids_def)

lemma update_todo_present:
  assumes "i \<in> set (ids s)"
  shows "\<exists>pre t post. todos_db s = pre @ t # post \<and> i \<notin> set (map todo_id pre) \<and> todo_id t = i
           \<and> get_todo s i = Inr t
           \<and> update_todo s i u now =
               (Inr (apply_update u now t), s\<lparr>todos_db := pre @ apply_update u now t # post\<rparr>)"
proof -
  from assms obtain p where p: "update_loop (todos_db s) i u now = Some p"
    using update_loop_None[of "todos_db s" i u now] by (auto simp: ids_def)
  obtain r ts' where "p = (r, ts')" by (cases p)
  with p update_loop_Some[of "todos_db s" i u now r ts'] obtain pre t post where
    *: "todos_db s = pre @ t # post" "i \<notin> set (map todo_id pre)" "todo_id t = i"
       "r = apply_update u now t" "ts' = pre @ r # post" by blast
  have "get_todo_loop (pre @ t # post) i = Inr t" using *(2,3) by (induction pre) auto
  with * p \<open>p = (r, ts')\<close> show ?thesis by (auto simp: update_todo_def get_todo_def)
qed

section \<open>Inputs and an instance of the float operations for the examples\<close>

text \<open>
  A create body that gives the title only, and an update body that gives
  \<open>completed\<close> only.
\<close>

definition title_only :: "string \<Rightarrow> create_body" where
  "title_only ti = \<lparr>body_title = ti, body_description = None, body_completed = None\<rparr>"

definition completed_only :: "bool \<Rightarrow> TodoUpdate" where
  "completed_only c = \<lparr>tu_title = Unset, tu_description = Unset, tu_completed = Provided (Some c)\<rparr>"

text \<open>
  To run sequences of requests on concrete inputs the float operations need an instance.
  \<open>exact_ops\<close> computes the three operations exactly on rationals, rounding half to even
  as Python's \<open>round\<close> does; Python's floats approximate it. It is used to evaluate
  examples only: every theorem below holds for all float operations.
\<close>

definition round_half_even :: "rat \<Rightarrow> int" where
  "round_half_even q =
     (let f = \<lfloor>q\<rfloor>; d = q - of_int f
      in if d < 1 / 2 then f else if 1 / 2 < d then f + 1 else if even f then f else f + 1)"

definition exact_ops :: "rat float_ops" where
  "exact_ops =
     \<lparr>truediv = (\<lambda>a b. of_int a / of_int b),
      times_int = (\<lambda>x n. x * of_int n),
      round_ndigits = (\<lambda>x n. of_int (round_half_even (x * 10 ^ nat n)) / 10 ^ nat n)\<rparr>"

section \<open>Claims about the store\<close>

text \<open>
  Claim C2. The id counter starts at 1 and is 6 after the five sample items are seeded.
  A create request increments it by exactly 1 and returns the value it had; no other
  request changes it, so it is never decremented. Hence, in every sequence of requests
  (creates interleaved with any other requests, deletes included) served from any state,
  the ids the creates return are consecutive from the counter: strictly increasing and
  pairwise different. In every state reached from the seeded one the ids of the
  collection are pairwise different and below the counter, so no id is used again.
\<close>

theorem next_id_allocation:
  "next_id initial_store = 1
   \<and> next_id (startup clock) = 6
   \<and> next_id (snd (handle fo s r)) = next_id s + (if is_create r then 1 else 0)
   \<and> fst (handle fo s (Create b t1 t2)) = Item (fst (create_todo s (TodoCreate b) t1 t2))
   \<and> todo_id (fst (create_todo s (TodoCreate b) t1 t2)) = next_id s
   \<and> next_id (snd (exec fo s rs)) = next_id s + int (length (filter is_create rs))
   \<and> created_ids (zip rs (fst (exec fo s rs))) =
        map (\<lambda>k. next_id s + int k) [0 ..< length (filter is_create rs)]
   \<and> sorted_wrt (<) (created_ids (zip rs (fst (exec fo s rs))))
   \<and> distinct (created_ids (zip rs (fst (exec fo s rs))))
   \<and> distinct (ids (snd (exec fo (startup clock) rs)))
   \<and> list_all (\<lambda>i. i < next_id (snd (exec fo (startup clock) rs)))
        (ids (snd (exec fo (startup clock) rs)))"
proof -
  have "store_ok (snd (exec fo (startup clock) rs))"
    by (rule store_ok_exec) (rule store_ok_startup)
  then have "distinct (ids (snd (exec fo (startup clock) rs)))"
    and "list_all (\<lambda>i. i < next_id (snd (exec fo (startup clock) rs)))
        (ids (snd (exec fo (startup clock) rs)))"
    by (simp_all add: store_ok_def)
  moreover have "fst (handle fo s (Create b t1 t2)) = Item (fst (create_todo s (TodoCreate b) t1 t2))"
    by (simp split: prod.splits)
  moreover have "todo_id (fst (create_todo s (TodoCreate b) t1 t2)) = next_id s"
    by (simp add: create_todo_def Let_def)
  moreover have "next_id initial_store = 1" by (simp add: initial_store_def)
  ultimately show ?thesis
    by (simp only: next_id_startup next_id_handle next_id_exec created_ids_exec
        increasing_from distinct_from simp_thms)
qed

text \<open>A run from the seeded state: two creates around a delete get the ids 6 and 7.\<close>

theorem next_id_allocation_witness:
  "fst (exec exact_ops (startup int)
          [Create (title_only ''A'') 10 11, Delete 6, GetStats, Create (title_only ''B'') 12 13, Delete 2]) =
     [Item \<lparr>todo_id = 6, title = Some ''A'', description = None, completed = Some False,
            created_at = 10, updated_at = 11\<rparr>,
      Message (''Todo '' @ [CHR 0x27] @ ''A'' @ [CHR 0x27] @ '' deleted successfully''),
      Statistics \<lparr>total_todos = 5, completed_todos = 1, pending_todos = 4,
        completion_percentage = FloatNum 20\<rparr>,
      Item \<lparr>todo_id = 7, title = Some ''B'', description = None, completed = Some False,
            created_at = 12, updated_at = 13\<rparr>,
      Message (''Todo '' @ [CHR 0x27] @ ''Build MCP Server'' @ [CHR 0x27] @ '' deleted successfully'')]
   \<and> ids (snd (exec exact_ops (startup int)
          [Create (title_only ''A'') 10 11, Delete 6, GetStats, Create (title_only ''B'') 12 13, Delete 2]))
      = [1, 3, 4, 5, 7]
   \<and> next_id (snd (exec exact_ops (startup int)
          [Create (title_only ''A'') 10 11, Delete 6, GetStats, Create (title_only ''B'') 12 13, Delete 2]))
      = 8"
  using next_id_allocation[of int exact_ops "startup int" GetStats "title_only ''A''" 10 11
     "[Create (title_only ''A'') 10 11, Delete 6, GetStats, Create (title_only ''B'') 12 13, Delete 2]"]
  by (simp add: startup_def dummy_todos_def initial_store_def create_todo_def Let_def
      TodoCreate_def title_only_def delete_todo_def deleted_message_def str_opt_def ids_def
      get_todo_stats_def truthy_def exact_ops_def round_half_even_def)

text \<open>
  Claim C3, as stated, fails: \<open>create_todo\<close> reads the clock twice, so \<open>created_at\<close>
  and \<open>updated_at\<close> differ whenever the two readings do.
\<close>

theorem create_todo_two_readings_counterexample:
  "created_at (fst (create_todo (startup int) (TodoCreate (title_only ''X'')) 10 11))
     \<noteq> updated_at (fst (create_todo (startup int) (TodoCreate (title_only ''X'')) 10 11))"
  by (simp add: create_todo_def Let_def)

text \<open>
  Claim C3, amended. For every create request the returned item has the id the counter
  held, which no item of a well-formed collection has, and the counter is incremented;
  \<open>created_at\<close> is the first reading of the clock and \<open>updated_at\<close> the second, so they
  are equal exactly when the two readings are, and \<open>created_at \<le> updated_at\<close> when the
  clock did not go back between them. When the request gives the title only, the item has
  no description and \<open>completed\<close> is false.
\<close>

theorem create_todo_result:
  "fst (create_todo s (TodoCreate b) t1 t2) =
      \<lparr>todo_id = next_id s,
       title = Some (body_title b),
       description = body_description b,
       completed = Some (case body_completed b of None \<Rightarrow> False | Some c \<Rightarrow> c),
       created_at = t1,
       updated_at = t2\<rparr>
   \<and> snd (create_todo s (TodoCreate b) t1 t2) =
      s\<lparr>todos_db := todos_db s @ [fst (create_todo s (TodoCreate b) t1 t2)],
        next_id := next_id s + 1\<rparr>
   \<and> (store_ok s \<longrightarrow> todo_id (fst (create_todo s (TodoCreate b) t1 t2)) \<notin> set (ids s))
   \<and> ((created_at (fst (create_todo s (TodoCreate b) t1 t2))
        = updated_at (fst (create_todo s (TodoCreate b) t1 t2))) \<longleftrightarrow> t1 = t2)
   \<and> (t1 \<le> t2 \<longrightarrow> created_at (fst (create_todo s (TodoCreate b) t1 t2))
        \<le> updated_at (fst (create_todo s (TodoCreate b) t1 t2)))
   \<and> description (fst (create_todo s (TodoCreate (title_only ti)) t1 t2)) = None
   \<and> completed (fst (create_todo s (TodoCreate (title_only ti)) t1 t2)) = Some False"
  by (auto simp: create_todo_def Let_def TodoCreate_def title_only_def store_ok_def list_all_iff)

text \<open>The amended claim at a create on the seeded store with readings 10 and 11.\<close>

theorem create_todo_result_witness:
  "store_ok (startup int)
   \<and> (10::int) \<le> 11
   \<and> fst (create_todo (startup int) (TodoCreate (title_only ''X'')) 10 11) =
      \<lparr>todo_id = 6, title = Some ''X'', description = None, completed = Some False,
       created_at = 10, updated_at = 11\<rparr>
   \<and> ids (startup int) = [1, 2, 3, 4, 5]
   \<and> next_id (snd (create_todo (startup int) (TodoCreate (title_only ''X'')) 10 11)) = 7"
  using create_todo_result[of "startup int" "title_only ''X''" 10 11 "''X''"]
    store_ok_startup[of int]
  by (simp add: startup_def dummy_todos_def initial_store_def ids_def title_only_def)

text \<open>
  Claim C4, as stated, fails: \<open>update_todo\<close> stores the clock's reading as it is. An item
  created at reading 10 and updated at reading 5 (the wall clock was set back in between)
  gets an \<open>updated_at\<close> below its previous value.
\<close>

theorem update_todo_counterexample:
  "fst (create_todo (startup int) (TodoCreate (title_only ''X'')) 10 10) =
      \<lparr>todo_id = 6, title = Some ''X'', description = None, completed = Some False,
       created_at = 10, updated_at = 10\<rparr>
   \<and> fst (update_todo (snd (create_todo (startup int) (TodoCreate (title_only ''X'')) 10 10))
            6 (completed_only True) 5) =
      Inr \<lparr>todo_id = 6, title = Some ''X'', description = None, completed = Some True,
           created_at = 10, updated_at = 5\<rparr>
   \<and> \<not> (10::int) \<le> 5"
  by (simp add: create_todo_def Let_def TodoCreate_def title_only_def startup_def
      dummy_todos_def initial_store_def update_todo_def apply_update_def
      dict_exclude_unset_def completed_only_def)

text \<open>
  Claim C4, amended. If no item has the id, the update fails with NotFound and the state
  is unchanged. Otherwise the first item \<open>t\<close> with the id is replaced in its place by
  the item \<open>r\<close> that is returned: id and \<open>created_at\<close> are those of \<open>t\<close>, each of
  \<open>title\<close>, \<open>description\<close> and \<open>completed\<close> is the request's value if the request
  has the field and the value of \<open>t\<close> otherwise, \<open>updated_at\<close> is the clock's reading,
  which is at least the previous value whenever the reading is not earlier than it; the
  other items and the counter are unchanged. In particular an update with
  \<open>completed\<close> only leaves \<open>title\<close> and \<open>description\<close> unchanged.
\<close>

theorem update_todo_spec:
  "(i \<notin> set (ids s) \<longrightarrow> update_todo s i u now = (Inl not_found, s))
   \<and> (\<forall>t. get_todo s i = Inr t \<longrightarrow>
        (\<exists>r pre post.
           update_todo s i u now = (Inr r, s\<lparr>todos_db := pre @ r # post\<rparr>)
           \<and> todos_db s = pre @ t # post \<and> i \<notin> set (map todo_id pre)
           \<and> todo_id r = todo_id t
           \<and> created_at r = created_at t
           \<and> title r = (case tu_title u of Unset \<Rightarrow> title t | Provided v \<Rightarrow> v)
           \<and> description r = (case tu_description u of Unset \<Rightarrow> description t | Provided v \<Rightarrow> v)
           \<and> completed r = (case tu_completed u of Unset \<Rightarrow> completed t | Provided v \<Rightarrow> v)
           \<and> updated_at r = now
           \<and> (updated_at t \<le> now \<longrightarrow> updated_at t \<le> updated_at r)
           \<and> get_todo (snd (update_todo s i u now)) i = Inr r)
        \<and> (\<exists>r. fst (update_todo s i (completed_only c) now) = Inr r
               \<and> title r = title t \<and> description r = description t
               \<and> completed r = Some c))"
proof (intro conjI allI impI)
  assume "i \<notin> set (ids s)"
  then show "update_todo s i u now = (Inl not_found, s)" by (rule update_todo_absent)
next
  fix t assume t: "get_todo s i = Inr t"
  then have i: "i \<in> set (ids s)" by (rule get_todo_present)
  from update_todo_present[OF i, of u now] t obtain pre post where
    *: "todos_db s = pre @ t # post" "i \<notin> set (map todo_id pre)" "todo_id t = i"
       "update_todo s i u now =
          (Inr (apply_update u now t), s\<lparr>todos_db := pre @ apply_update u now t # post\<rparr>)"
    by auto
  have "get_todo_loop (pre @ apply_update u now t # post) i = Inr (apply_update u now t)"
    using *(2,3) by (induction pre) auto
  with * show "\<exists>r pre post.
           update_todo s i u now = (Inr r, s\<lparr>todos_db := pre @ r # post\<rparr>)
           \<and> todos_db s = pre @ t # post \<and> i \<notin> set (map todo_id pre)
           \<and> todo_id r = todo_id t
           \<and> created_at r = created_at t
           \<and> title r = (case tu_title u of Unset \<Rightarrow> title t | Provided v \<Rightarrow> v)
           \<and> description r = (case tu_description u of Unset \<Rightarrow> description t | Provided v \<Rightarrow> v)
           \<and> completed r = (case tu_completed u of Unset \<Rightarrow> completed t | Provided v \<Rightarrow> v)
           \<and> updated_at r = now
           \<and> (updated_at t \<le> now \<longrightarrow> updated_at t \<le> updated_at r)
           \<and> get_todo (snd (update_todo s i u now)) i = Inr r"
    by (intro exI[of _ "apply_update u now t"] exI[of _ pre] exI[of _ post])
       (simp add: title_apply_update description_apply_update completed_apply_update get_todo_def)
  from update_todo_present[OF i, of "completed_only c" now] t
  show "\<exists>r. fst (update_todo s i (completed_only c) now) = Inr r
               \<and> title r = title t \<and> description r = description t
               \<and> completed r = Some c"
    by (auto simp: title_apply_update description_apply_update completed_apply_update
        completed_only_def)
qed

text \<open>The amended claim at the seeded state: item 4 is updated, id 9 is not there.\<close>

theorem update_todo_spec_witness:
  "get_todo (startup int) 4 =
     Inr \<lparr>todo_id = 4, title = Some ''Deploy Application'',
          description = Some ''Deploy to production'', completed = Some True,
          created_at = 6, updated_at = 7\<rparr>
   \<and> (7::int) \<le> 100
   \<and> fst (update_todo (startup int) 4 (completed_only False) 100) =
     Inr \<lparr>todo_id = 4, title = Some ''Deploy Application'',
          description = Some ''Deploy to production'', completed = Some False,
          created_at = 6, updated_at = 100\<rparr>
   \<and> 9 \<notin> set (ids (startup int))
   \<and> update_todo (startup int) 9 (completed_only False) 100 = (Inl not_found, startup int)"
  using update_todo_spec[of 4 "startup int" "completed_only False" 100 False]
    update_todo_spec[of 9 "startup int" "completed_only False" 100 False]
  by (simp add: startup_def dummy_todos_def initial_store_def get_todo_def ids_def
      update_todo_def apply_update_def dict_exclude_unset_def completed_only_def)

text \<open>
  Claim C5. A delete succeeds exactly when some item of the collection has the id. If
  none has, it fails with NotFound and the state is unchanged. If \<open>d\<close> is the item
  get-by-id finds, the delete returns the message \<open>Todo '...' deleted successfully\<close>
  with the title of \<open>d\<close> between the quotes (the text \<open>None\<close> for a title that is
  \<open>None\<close>) and removes \<open>d\<close> from the list; in a well-formed store a get-by-id of the same id then
  fails with NotFound, at once and after any further requests. Every state the service
  reaches from the seeded one is well-formed.
\<close>

theorem delete_todo_spec:
  "((\<exists>m. fst (delete_todo s i) = Inr m) \<longleftrightarrow> i \<in> set (ids s))
   \<and> (i \<notin> set (ids s) \<longrightarrow> delete_todo s i = (Inl (HTTPException 404 ''Todo not found''), s))
   \<and> (\<forall>d. get_todo s i = Inr d \<longrightarrow>
         fst (delete_todo s i) =
           Inr (''Todo '' @ [CHR 0x27] @ (case title d of None \<Rightarrow> ''None'' | Some ti \<Rightarrow> ti) @
                [CHR 0x27] @ '' deleted successfully'')
         \<and> todos_db (snd (delete_todo s i)) = remove1 d (todos_db s)
         \<and> next_id (snd (delete_todo s i)) = next_id s
         \<and> (store_ok s \<longrightarrow>
               get_todo (snd (delete_todo s i)) i = Inl (HTTPException 404 ''Todo not found'')
               \<and> get_todo (snd (exec fo (snd (delete_todo s i)) rs)) i = Inl (HTTPException 404 ''Todo not found'')))
   \<and> store_ok (snd (exec fo (startup clock) rs0))"
proof (intro conjI allI impI)
  show "store_ok (snd (exec fo (startup clock) rs0))"
    by (rule store_ok_exec) (rule store_ok_startup)
next
  show "(\<exists>m. fst (delete_todo s i) = Inr m) \<longleftrightarrow> i \<in> set (ids s)"
    using delete_loop_None[of "todos_db s" i]
    by (auto simp: delete_todo_def ids_def split: option.splits)
next
  assume "i \<notin> set (ids s)"
  then show "delete_todo s i = (Inl (HTTPException 404 ''Todo not found''), s)"
    by (simp add: delete_todo_absent not_found_def[symmetric])
next
  fix d assume "get_todo s i = Inr d"
  from delete_todo_present[OF this]
  show "fst (delete_todo s i) =
           Inr (''Todo '' @ [CHR 0x27] @ (case title d of None \<Rightarrow> ''None'' | Some ti \<Rightarrow> ti) @
                [CHR 0x27] @ '' deleted successfully'')"
    and "todos_db (snd (delete_todo s i)) = remove1 d (todos_db s)"
    by (simp_all add: deleted_message_def str_opt_def)
next
  show "next_id (snd (delete_todo s i)) = next_id s" by (rule delete_todo_next_id)
next
  fix d assume d: "get_todo s i = Inr d" and ok: "store_ok s"
  from ok have gone: "i \<notin> set (ids (snd (delete_todo s i)))"
    by (simp add: store_ok_def delete_todo_removes)
  then show "get_todo (snd (delete_todo s i)) i = Inl (HTTPException 404 ''Todo not found'')"
    by (simp add: get_todo_not_found not_found_def[symmetric])
  from get_todo_present[OF d] ok have "i < next_id s"
    by (auto simp: store_ok_def list_all_iff)
  then have "i < next_id (snd (delete_todo s i))" by (simp add: delete_todo_next_id)
  from absent_exec[OF gone this]
  show "get_todo (snd (exec fo (snd (delete_todo s i)) rs)) i =
          Inl (HTTPException 404 ''Todo not found'')"
    by (simp add: get_todo_not_found not_found_def[symmetric])
qed

text \<open>The claim at the seeded state: item 4 is deleted for good, id 9 is not there.\<close>

theorem delete_todo_spec_witness:
  "store_ok (startup int)
   \<and> get_todo (startup int) 4 =
     Inr \<lparr>todo_id = 4, title = Some ''Deploy Application'',
          description = Some ''Deploy to production'', completed = Some True,
          created_at = 6, updated_at = 7\<rparr>
   \<and> fst (delete_todo (startup int) 4) =
       Inr (''Todo '' @ [CHR 0x27] @ ''Deploy Application'' @ [CHR 0x27] @ '' deleted successfully'')
   \<and> ids (snd (delete_todo (startup int) 4)) = [1, 2, 3, 5]
   \<and> get_todo (snd (delete_todo (startup int) 4)) 4 = Inl (HTTPException 404 ''Todo not found'')
   \<and> get_todo (snd (exec exact_ops (snd (delete_todo (startup int) 4))
         [Create (title_only ''X'') 20 21, GetById 4])) 4 = Inl (HTTPException 404 ''Todo not found'')
   \<and> 9 \<notin> set (ids (startup int))
   \<and> delete_todo (startup int) 9 = (Inl (HTTPException 404 ''Todo not found''), startup int)"
  using delete_todo_spec[of "startup int" 4 exact_ops "[Create (title_only ''X'') 20 21, GetById 4]"]
    delete_todo_spec[of "startup int" 9 exact_ops "[]"] store_ok_startup[of int]
  by (simp add: startup_def dummy_todos_def initial_store_def get_todo_def ids_def
      delete_todo_def deleted_message_def str_opt_def not_found_def)

section \<open>Tool Bridge Adapter: Python values, exceptions and the HTTP call\<close>

text \<open>
  The adapter handles what \<open>response.json()\<close> returns and what the tool-calling client
  passes as \<open>arguments\<close>: JSON values. A dictionary is an association list in the order
  of its keys, each key once. A float is never computed with by the adapter, only
  printed and tested for truth: it is carried as the text Python prints for it.
\<close>

datatype json =
  JNull
| JBool bool
| JInt int
| JFloat string
| JStr string
| JList "json list"
| JObj "(string \<times> json) list"

text \<open>
  The exceptions the adapter's code can meet. \<open>HTTPStatusError\<close> carries the status code
  and the text of the response (\<open>e.response.status_code\<close>, \<open>e.response.text\<close>).
\<close>

datatype py_exn =
  ConnectError
| HTTPStatusError int string
| JSONDecodeError
| ValueError string
| KeyError string
| TypeError
| AttributeError
| ValidationError
| Exception string

text \<open>
  One HTTP exchange: the request the adapter sends, and what comes back. \<open>json_body\<close> is
  what \<open>response.json()\<close> returns for the body, \<open>None\<close> when the body is not JSON.
\<close>

record http_request =
  http_method :: string
  url :: string
  json_data :: "json option"

record http_response =
  status_code :: int
  body_text :: string
  json_body :: "json option"

datatype http_outcome = Unreachable | Replied http_response

text \<open>
  What the code takes from outside: the network (\<open>http\<close>), the message text of an
  exception that library code raised (\<open>lib_message\<close>: \<open>str(e)\<close> for the exceptions of
  httpx, json, pydantic and the interpreter), and Python's \<open>repr\<close> of a list or a
  dictionary, which an f-string prints for such a value.
\<close>

record env =
  http :: "http_request \<Rightarrow> http_outcome"
  lib_message :: "py_exn \<Rightarrow> string"
  repr :: "json \<Rightarrow> string"

text \<open>\<open>str\<close> of an integer: its decimal digits.\<close>

fun str_nat :: "nat \<Rightarrow> string" where
  "str_nat n =
     (if n < 10 then [''0123456789'' ! n]
      else str_nat (n div 10) @ [''0123456789'' ! (n mod 10)])"

declare str_nat.simps [simp del]

definition str_int :: "int \<Rightarrow> string" where
  "str_int i = (if i < 0 then ''-'' @ str_nat (nat (- i)) else str_nat (nat i))"

text \<open>What an f-string prints for a value, \<open>{v}\<close>.\<close>

fun py_str :: "env \<Rightarrow> json \<Rightarrow> string" where
  "py_str e JNull = ''None''"
| "py_str e (JBool b) = (if b then ''True'' else ''False'')"
| "py_str e (JInt i) = str_int i"
| "py_str e (JFloat s) = s"
| "py_str e (JStr s) = s"
| "py_str e (JList xs) = repr e (JList xs)"
| "py_str e (JObj kvs) = repr e (JObj kvs)"

text \<open>The truth value of a value in \<open>x if v else y\<close>.\<close>

fun is_true :: "json \<Rightarrow> bool" where
  "is_true JNull = False"
| "is_true (JBool b) = b"
| "is_true (JInt i) = (i \<noteq> 0)"
| "is_true (JFloat s) = (s \<noteq> ''0.0'' \<and> s \<noteq> ''-0.0'')"
| "is_true (JStr s) = (s \<noteq> [])"
| "is_true (JList xs) = (xs \<noteq> [])"
| "is_true (JObj kvs) = (kvs \<noteq> [])"

text \<open>
  \<open>v[k]\<close> with a string key, \<open>v.get(k, d)\<close>, and \<open>for x in v\<close>, with the exceptions
  Python raises when \<open>v\<close> is not a value the operation is defined on.
\<close>

fun subscript :: "json \<Rightarrow> string \<Rightarrow> py_exn + json" where
  "subscript (JObj kvs) k = (case map_of kvs k of None \<Rightarrow> Inl (KeyError k) | Some v \<Rightarrow> Inr v)"
| "subscript v k = Inl TypeError"

fun dict_get :: "json \<Rightarrow> string \<Rightarrow> json \<Rightarrow> py_exn + json" where
  "dict_get (JObj kvs) k d = Inr (case map_of kvs k of None \<Rightarrow> d | Some v \<Rightarrow> v)"
| "dict_get v k d = Inl AttributeError"

fun iterate :: "json \<Rightarrow> py_exn + json list" where
  "iterate (JList xs) = Inr xs"
| "iterate (JObj kvs) = Inr (map (\<lambda>kv. JStr (fst kv)) kvs)"
| "iterate (JStr s) = Inr (map (\<lambda>c. JStr [c]) s)"
| "iterate v = Inl TypeError"

text \<open>
  Sequencing of code that may raise: the first exception ends the computation.
  \<open>for_each\<close> is a list comprehension whose element expression may raise.
\<close>

definition and_then :: "py_exn + 'a \<Rightarrow> ('a \<Rightarrow> py_exn + 'b) \<Rightarrow> py_exn + 'b" where
  "and_then m f = (case m of Inl ex \<Rightarrow> Inl ex | Inr x \<Rightarrow> f x)"

fun for_each :: "('a \<Rightarrow> py_exn + 'b) \<Rightarrow> 'a list \<Rightarrow> py_exn + 'b list" where
  "for_each f [] = Inr []"
| "for_each f (x # xs) =
     and_then (f x) (\<lambda>y. and_then (for_each f xs) (\<lambda>ys. Inr (y # ys)))"

text \<open>\<open>sep.join(lines)\<close>\<close>

fun join :: "string \<Rightarrow> string list \<Rightarrow> string" where
  "join sep [] = []"
| "join sep [l] = l"
| "join sep (l # ls) = l @ sep @ join sep ls"

text \<open>
  \<open>str(e)\<close>: the message the exception was raised with; for \<open>KeyError\<close> the key in
  quotes; for an exception that library code raised, the library's text.
\<close>

fun exn_str :: "env \<Rightarrow> py_exn \<Rightarrow> string" where
  "exn_str e (ValueError m) = m"
| "exn_str e (Exception m) = m"
| "exn_str e (KeyError k) = [CHR 0x27] @ k @ [CHR 0x27]"
| "exn_str e ex = lib_message e ex"

text \<open>
  \<open>response.raise_for_status()\<close> raises unless the status is a success, 2xx.
\<close>

definition is_success :: "int \<Rightarrow> bool" where
  "is_success code = (200 \<le> code \<and> code < 300)"

text \<open>
  The body of \<open>async with httpx.AsyncClient() as client\<close>, which both adapters share:
  the method picks the call (\<open>json=data\<close> goes with POST and PUT only), an unknown method
  raises \<open>ValueError\<close> before anything is sent, then \<open>raise_for_status\<close> and
  \<open>response.json()\<close>.
\<close>

definition send :: "env \<Rightarrow> http_request \<Rightarrow> py_exn + json" where
  "send e rq =
     (case http e rq of
        Unreachable \<Rightarrow> Inl ConnectError
      | Replied r \<Rightarrow>
          if is_success (status_code r)
          then (case json_body r of None \<Rightarrow> Inl JSONDecodeError | Some j \<Rightarrow> Inr j)
          else Inl (HTTPStatusError (status_code r) (body_text r)))"

definition client_call :: "env \<Rightarrow> string \<Rightarrow> string \<Rightarrow> json option \<Rightarrow> py_exn + json" where
  "client_call e method u data =
     (if method = ''GET'' then send e \<lparr>http_method = ''GET'', url = u, json_data = None\<rparr>
      else if method = ''POST'' then send e \<lparr>http_method = ''POST'', url = u, json_data = data\<rparr>
      else if method = ''PUT'' then send e \<lparr>http_method = ''PUT'', url = u, json_data = data\<rparr>
      else if method = ''DELETE'' then send e \<lparr>http_method = ''DELETE'', url = u, json_data = None\<rparr>
      else Inl (ValueError (''Unsupported HTTP method: '' @ method)))"

text \<open>
  \<open>TodoMCPServer._make_request\<close> (main.py): the call, with nothing caught.
\<close>

definition TodoMCPServer_make_request ::
  "env \<Rightarrow> string \<Rightarrow> string \<Rightarrow> json option \<Rightarrow> py_exn + json" where
  "TodoMCPServer_make_request e method endpoint data =
     client_call e method (''http://localhost:8001'' @ endpoint) data"

text \<open>
  \<open>make_request\<close> (mcp\_server.py): the same call inside \<open>try\<close>; the two \<open>except\<close>
  clauses replace \<open>httpx.ConnectError\<close> and \<open>httpx.HTTPStatusError\<close> by an
  \<open>Exception\<close> with a message of the adapter's own; any other exception passes.
\<close>

definition FASTAPI_URL :: string where
  "FASTAPI_URL = ''http://localhost:8001''"

definition make_request :: "env \<Rightarrow> string \<Rightarrow> string \<Rightarrow> json option \<Rightarrow> py_exn + json" where
  "make_request e method endpoint data =
     (case client_call e method (FASTAPI_URL @ endpoint) data of
        Inl ConnectError \<Rightarrow>
          Inl (Exception (''Cannot connect to FastAPI server. Make sure it'' @ [CHR 0x27] @
                 ''s running on http://localhost:8001''))
      | Inl (HTTPStatusError code body) \<Rightarrow>
          Inl (Exception (''HTTP error: '' @ str_int code @ '' - '' @ body))
      | Inl ex \<Rightarrow> Inl ex
      | Inr j \<Rightarrow> Inr j)"

section \<open>The adapter in main.py: \<open>TodoMCPServer\<close>\<close>

text \<open>
  A tool returns \<open>CallToolResult(content=[TextContent(type="text", text=...)])\<close>.
\<close>

datatype content = TextContent string

datatype call_tool_result = CallToolResult "content list"

text \<open>
  The two status glyphs of main.py, U+2705 and U+23F3, as the bytes of their UTF-8
  encoding.
\<close>

definition done_glyph :: string where
  "done_glyph = [CHR 0xE2, CHR 0x9C, CHR 0x85]"

definition pending_glyph :: string where
  "pending_glyph = [CHR 0xE2, CHR 0x8F, CHR 0xB3]"

text \<open>
  The f-string of one item, which \<open>_get_todos\<close> and \<open>get_todos\<close> share up to the two
  glyphs: \<open>todo['id']\<close>, \<open>todo['title']\<close>, \<open>todo['completed']\<close> and
  \<open>todo.get('description', 'No description')\<close> are evaluated in this order.
\<close>

definition todo_line :: "env \<Rightarrow> string \<Rightarrow> string \<Rightarrow> json \<Rightarrow> py_exn + string" where
  "todo_line e yes no todo =
     and_then (subscript todo ''id'') (\<lambda>i.
     and_then (subscript todo ''title'') (\<lambda>ti.
     and_then (subscript todo ''completed'') (\<lambda>c.
     and_then (dict_get todo ''description'' (JStr ''No description'')) (\<lambda>d.
       Inr (''ID: '' @ py_str e i @ '' | '' @ py_str e ti @ '' | '' @
            (if is_true c then yes else no) @ '' | '' @ py_str e d)))))"

definition TodoMCPServer_get_todos :: "env \<Rightarrow> py_exn + call_tool_result" where
  "TodoMCPServer_get_todos e =
     and_then (TodoMCPServer_make_request e ''GET'' ''/todos'' None) (\<lambda>todos.
     and_then (iterate todos) (\<lambda>items.
     and_then (for_each (todo_line e done_glyph pending_glyph) items) (\<lambda>lines.
       Inr (CallToolResult
              [TextContent (''All Todos:'' @ ''\<newline>'' @ join ''\<newline>'' lines)]))))"

definition TodoMCPServer_get_todo_stats :: "env \<Rightarrow> py_exn + call_tool_result" where
  "TodoMCPServer_get_todo_stats e =
     and_then (TodoMCPServer_make_request e ''GET'' ''/todos/stats'' None) (\<lambda>stats.
     and_then (subscript stats ''total_todos'') (\<lambda>total.
     and_then (subscript stats ''completed_todos'') (\<lambda>done.
     and_then (subscript stats ''pending_todos'') (\<lambda>pending.
     and_then (subscript stats ''completion_percentage'') (\<lambda>pct.
       Inr (CallToolResult
              [TextContent
                 (''Todo Statistics:'' @ ''\<newline>'' @
                  ''Total Todos: '' @ py_str e total @ ''\<newline>'' @
                  ''Completed: '' @ py_str e done @ ''\<newline>'' @
                  ''Pending: '' @ py_str e pending @ ''\<newline>'' @
                  ''Completion Rate: '' @ py_str e pct @ ''%'')]))))))"

text \<open>
  \<open>arguments\<close> is the dictionary of the call. \<open>arguments["title"]\<close> raises \<open>KeyError\<close>
  when the key is missing; \<open>arguments.get\<close> gives the default.
\<close>

definition arguments_get :: "(string \<times> json) list \<Rightarrow> string \<Rightarrow> json \<Rightarrow> json" where
  "arguments_get arguments k d = (case map_of arguments k of None \<Rightarrow> d | Some v \<Rightarrow> v)"

definition TodoMCPServer_create_todo :: "env \<Rightarrow> (string \<times> json) list \<Rightarrow> py_exn + call_tool_result" where
  "TodoMCPServer_create_todo e arguments =
     and_then (subscript (JObj arguments) ''title'') (\<lambda>ti.
     and_then (TodoMCPServer_make_request e ''POST'' ''/todos''
                 (Some (JObj [(''title'', ti),
                              (''description'', arguments_get arguments ''description'' JNull),
                              (''completed'', arguments_get arguments ''completed'' (JBool False))])))
       (\<lambda>result.
     and_then (subscript result ''title'') (\<lambda>rt.
     and_then (subscript result ''id'') (\<lambda>ri.
       Inr (CallToolResult
              [TextContent (''Created todo: '' @ py_str e rt @ '' (ID: '' @ py_str e ri @ '')'')])))))"

text \<open>
  \<open>_update_todo\<close>: \<open>update_data\<close> is the dictionary comprehension
  \<open>{k: v for k, v in arguments.items() if k != "id" and v is not None}\<close>.
\<close>

definition update_data :: "(string \<times> json) list \<Rightarrow> (string \<times> json) list" where
  "update_data arguments = filter (\<lambda>kv. fst kv \<noteq> ''id'' \<and> snd kv \<noteq> JNull) arguments"

definition TodoMCPServer_update_todo :: "env \<Rightarrow> (string \<times> json) list \<Rightarrow> py_exn + call_tool_result" where
  "TodoMCPServer_update_todo e arguments =
     and_then (subscript (JObj arguments) ''id'') (\<lambda>todo_id.
     and_then (TodoMCPServer_make_request e ''PUT'' (''/todos/'' @ py_str e todo_id)
                 (Some (JObj (update_data arguments))))
       (\<lambda>result.
     and_then (subscript result ''title'') (\<lambda>rt.
     and_then (subscript result ''id'') (\<lambda>ri.
       Inr (CallToolResult
              [TextContent (''Updated todo: '' @ py_str e rt @ '' (ID: '' @ py_str e ri @ '')'')])))))"

text \<open>
  \<open>_delete_todo\<close> passes \<open>result["message"]\<close> as the text: \<open>TextContent\<close> is a pydantic
  model whose \<open>text\<close> is a \<open>str\<close>, so another value raises its validation error.
\<close>

definition TodoMCPServer_delete_todo :: "env \<Rightarrow> (string \<times> json) list \<Rightarrow> py_exn + call_tool_result" where
  "TodoMCPServer_delete_todo e arguments =
     and_then (subscript (JObj arguments) ''id'') (\<lambda>todo_id.
     and_then (TodoMCPServer_make_request e ''DELETE'' (''/todos/'' @ py_str e todo_id) None)
       (\<lambda>result.
     and_then (subscript result ''message'') (\<lambda>m.
       case m of
         JStr s \<Rightarrow> Inr (CallToolResult [TextContent s])
       | _ \<Rightarrow> Inl ValidationError)))"

definition TodoMCPServer_get_todo_by_id :: "env \<Rightarrow> (string \<times> json) list \<Rightarrow> py_exn + call_tool_result" where
  "TodoMCPServer_get_todo_by_id e arguments =
     and_then (subscript (JObj arguments) ''id'') (\<lambda>todo_id.
     and_then (TodoMCPServer_make_request e ''GET'' (''/todos/'' @ py_str e todo_id) None)
       (\<lambda>todo.
     and_then (subscript todo ''id'') (\<lambda>i.
     and_then (subscript todo ''title'') (\<lambda>ti.
     and_then (dict_get todo ''description'' (JStr ''No description'')) (\<lambda>d.
     and_then (subscript todo ''completed'') (\<lambda>c.
     and_then (subscript todo ''created_at'') (\<lambda>cr.
     and_then (subscript todo ''updated_at'') (\<lambda>up.
       Inr (CallToolResult
              [TextContent
                 (''Todo Details:'' @ ''\<newline>'' @
                  ''ID: '' @ py_str e i @ ''\<newline>'' @
                  ''Title: '' @ py_str e ti @ ''\<newline>'' @
                  ''Description: '' @ py_str e d @ ''\<newline>'' @
                  ''Status: '' @ (if is_true c then done_glyph @ '' Completed''
                                  else pending_glyph @ '' Pending'') @ ''\<newline>'' @
                  ''Created: '' @ py_str e cr @ ''\<newline>'' @
                  ''Updated: '' @ py_str e up)])))))))))"

text \<open>
  \<open>handle_call_tool\<close>: the body of the \<open>try\<close> dispatches on the name, and
  \<open>except Exception as e\<close> turns whatever it raised into a text.
\<close>

definition tool_names :: "string list" where
  "tool_names =
     [''get_todos'', ''get_todo_stats'', ''create_todo'', ''update_todo'', ''delete_todo'',
      ''get_todo_by_id'']"

definition handle_call_tool_try :: "env \<Rightarrow> string \<Rightarrow> (string \<times> json) list \<Rightarrow> py_exn + call_tool_result" where
  "handle_call_tool_try e name arguments =
     (if name = ''get_todos'' then TodoMCPServer_get_todos e
      else if name = ''get_todo_stats'' then TodoMCPServer_get_todo_stats e
      else if name = ''create_todo'' then TodoMCPServer_create_todo e arguments
      else if name = ''update_todo'' then TodoMCPServer_update_todo e arguments
      else if name = ''delete_todo'' then TodoMCPServer_delete_todo e arguments
      else if name = ''get_todo_by_id'' then TodoMCPServer_get_todo_by_id e arguments
      else Inr (CallToolResult [TextContent (''Unknown tool: '' @ name)]))"

definition handle_call_tool :: "env \<Rightarrow> string \<Rightarrow> (string \<times> json) list \<Rightarrow> call_tool_result" where
  "handle_call_tool e name arguments =
     (case handle_call_tool_try e name arguments of
        Inr r \<Rightarrow> r
      | Inl ex \<Rightarrow> CallToolResult [TextContent (''Error: '' @ exn_str e ex)])"

section \<open>The adapter in mcp\_server.py\<close>

text \<open>
  The tools of mcp\_server.py are functions that return the text; the FastMCP library,
  which is not part of the repository, registers them, dispatches on the name and
  handles what they raise. The two glyphs of this file are the bytes it holds.
\<close>

definition mcp_done_glyph :: string where
  "mcp_done_glyph = [CHR 0xC3, CHR 0xA2, CHR 0xC5, CHR 0x93, CHR 0xE2, CHR 0x80, CHR 0xA6]"

definition mcp_pending_glyph :: string where
  "mcp_pending_glyph = [CHR 0xC3, CHR 0xA2, CHR 0xC2, CHR 0xB3]"

definition tool_get_todos :: "env \<Rightarrow> py_exn + string" where
  "tool_get_todos e =
     and_then (make_request e ''GET'' ''/todos'' None) (\<lambda>todos.
     and_then (iterate todos) (\<lambda>items.
     and_then (for_each (todo_line e mcp_done_glyph mcp_pending_glyph) items) (\<lambda>lines.
       Inr (''All Todos:'' @ ''\<newline>'' @ join ''\<newline>'' lines))))"

text \<open>
  \<open>update_todo(todo_id, title=None, description=None, completed=None)\<close>: a key goes into
  \<open>update_data\<close> for each argument that is not \<open>None\<close>.
\<close>

definition tool_update_data :: "string option \<Rightarrow> string option \<Rightarrow> bool option \<Rightarrow> (string \<times> json) list" where
  "tool_update_data ti de co =
     (case ti of None \<Rightarrow> [] | Some v \<Rightarrow> [(''title'', JStr v)]) @
     (case de of None \<Rightarrow> [] | Some v \<Rightarrow> [(''description'', JStr v)]) @
     (case co of None \<Rightarrow> [] | Some v \<Rightarrow> [(''completed'', JBool v)])"

definition tool_update_todo ::
  "env \<Rightarrow> int \<Rightarrow> string option \<Rightarrow> string option \<Rightarrow> bool option \<Rightarrow> py_exn + string" where
  "tool_update_todo e tid ti de co =
     and_then (make_request e ''PUT'' (''/todos/'' @ str_int tid)
                 (Some (JObj (tool_update_data ti de co))))
       (\<lambda>result.
     and_then (subscript result ''title'') (\<lambda>rt.
     and_then (subscript result ''id'') (\<lambda>ri.
       Inr (''Updated todo: '' @ py_str e rt @ '' (ID: '' @ py_str e ri @ '')''))))"

section \<open>The store at its HTTP boundary\<close>

text \<open>
  What FastAPI does around the handlers, as far as the claims need it. A PUT body is a
  JSON object; pydantic builds the \<open>TodoUpdate\<close> from it, in its default (lax) mode, and
  keys that are not fields are ignored. A key that is absent leaves the field unset and
  \<open>null\<close> sets it to \<open>None\<close>. For \<open>title\<close> and \<open>description\<close>
  (\<open>Optional[str]\<close>) a string is the only other value accepted. For \<open>completed\<close>
  (\<open>Optional[bool]\<close>) pydantic accepts a boolean, the integers 0 and 1, the floats
  0.0 and 1.0, and a string that in lower case is one of \<open>0 off f false n no\<close> or
  \<open>1 on t true y yes\<close>. Any other value is rejected with the 422 reply, before the
  handler runs. (This is pydantic 2, which the \<open>mcp\<close> package that main.py imports
  requires.)
\<close>

fun str_field :: "json option \<Rightarrow> string field option" where
  "str_field None = Some Unset"
| "str_field (Some JNull) = Some (Provided None)"
| "str_field (Some (JStr s)) = Some (Provided (Some s))"
| "str_field (Some v) = None"

definition lower_ascii :: "char \<Rightarrow> char" where
  "lower_ascii c =
     (case map_of (zip ''ABCDEFGHIJKLMNOPQRSTUVWXYZ'' ''abcdefghijklmnopqrstuvwxyz'') c of
        None \<Rightarrow> c
      | Some l \<Rightarrow> l)"

definition bool_of_str :: "string \<Rightarrow> bool option" where
  "bool_of_str s =
     (if map lower_ascii s \<in> set [''0'', ''off'', ''f'', ''false'', ''n'', ''no''] then Some False
      else if map lower_ascii s \<in> set [''1'', ''on'', ''t'', ''true'', ''y'', ''yes''] then Some True
      else None)"

fun lax_bool :: "json \<Rightarrow> bool option" where
  "lax_bool (JBool b) = Some b"
| "lax_bool (JInt n) = (if n = 0 then Some False else if n = 1 then Some True else None)"
| "lax_bool (JFloat x) =
     (if x = ''0.0'' \<or> x = ''-0.0'' then Some False else if x = ''1.0'' then Some True else None)"
| "lax_bool (JStr s) = bool_of_str s"
| "lax_bool v = None"

fun bool_field :: "json option \<Rightarrow> bool field option" where
  "bool_field None = Some Unset"
| "bool_field (Some JNull) = Some (Provided None)"
| "bool_field (Some v) = map_option (\<lambda>b. Provided (Some b)) (lax_bool v)"

definition TodoUpdate_of_body :: "(string \<times> json) list \<Rightarrow> TodoUpdate option" where
  "TodoUpdate_of_body body =
     (case (str_field (map_of body ''title''), str_field (map_of body ''description''),
            bool_field (map_of body ''completed'')) of
        (Some ti, Some de, Some co) \<Rightarrow>
          Some \<lparr>tu_title = ti, tu_description = de, tu_completed = co\<rparr>
      | _ \<Rightarrow> None)"

definition unprocessable :: http_error where
  "unprocessable = HTTPException 422 ''Unprocessable Entity''"

definition put_todo :: "store \<Rightarrow> int \<Rightarrow> (string \<times> json) list \<Rightarrow> datetime \<Rightarrow> (http_error + Todo) \<times> store" where
  "put_todo s i body now =
     (case TodoUpdate_of_body body of
        None \<Rightarrow> (Inl unprocessable, s)
      | Some u \<Rightarrow> update_todo s i u now)"

text \<open>
  The JSON object FastAPI sends for an item under \<open>response_model=Todo\<close>: every field
  of the model is present, a field that is \<open>None\<close> as \<open>null\<close>. \<open>isoformat\<close> is the text of a
  timestamp.
\<close>

definition json_of_str :: "string option \<Rightarrow> json" where
  "json_of_str v = (case v of None \<Rightarrow> JNull | Some s \<Rightarrow> JStr s)"

definition json_of_bool :: "bool option \<Rightarrow> json" where
  "json_of_bool v = (case v of None \<Rightarrow> JNull | Some b \<Rightarrow> JBool b)"

definition todo_json :: "(datetime \<Rightarrow> string) \<Rightarrow> Todo \<Rightarrow> json" where
  "todo_json isoformat t =
     JObj [(''id'', JInt (todo_id t)),
           (''title'', json_of_str (title t)),
           (''description'', json_of_str (description t)),
           (''completed'', json_of_bool (completed t)),
           (''created_at'', JStr (isoformat (created_at t))),
           (''updated_at'', JStr (isoformat (updated_at t)))]"

section \<open>Facts about the adapter and the boundary\<close>

lemma update_loop_keeps_description:
  "update_loop ts i u now = Some (r, ts') \<Longrightarrow> tu_description u = Unset \<Longrightarrow>
   map description ts' = map description ts"
  by (induction ts arbitrary: ts')
     (auto simp: description_apply_update split: option.splits if_splits)

lemma TodoUpdate_of_body_fields:
  "TodoUpdate_of_body body = Some u \<Longrightarrow>
     str_field (map_of body ''title'') = Some (tu_title u)
     \<and> str_field (map_of body ''description'') = Some (tu_description u)
     \<and> bool_field (map_of body ''completed'') = Some (tu_completed u)"
  by (auto simp: TodoUpdate_of_body_def split: option.splits)

lemma put_todo_keeps_description:
  assumes "map_of body ''description'' = None"
  shows "map description (todos_db (snd (put_todo s i body now))) = map description (todos_db s)"
proof (cases "TodoUpdate_of_body body")
  case None
  then show ?thesis by (simp add: put_todo_def)
next
  case (Some u)
  from TodoUpdate_of_body_fields[OF Some] assms have "tu_description u = Unset" by simp
  with Some show ?thesis
    by (auto simp: put_todo_def update_todo_def split: option.splits
        dest: update_loop_keeps_description)
qed

lemma put_todo_present:
  assumes "get_todo s i = Inr t" and "TodoUpdate_of_body body = Some u"
  shows "\<exists>ts. put_todo s i body now = (Inr (apply_update u now t), s\<lparr>todos_db := ts\<rparr>)
              \<and> get_todo (s\<lparr>todos_db := ts\<rparr>) i = Inr (apply_update u now t)"
proof -
  from assms(1) have i: "i \<in> set (ids s)" by (rule get_todo_present)
  from update_todo_present[OF i, of u now] assms(1) obtain pre post where
    *: "todos_db s = pre @ t # post" "i \<notin> set (map todo_id pre)" "todo_id t = i"
       "update_todo s i u now =
          (Inr (apply_update u now t), s\<lparr>todos_db := pre @ apply_update u now t # post\<rparr>)"
    by auto
  have "get_todo_loop (pre @ apply_update u now t # post) i = Inr (apply_update u now t)"
    using *(2,3) by (induction pre) auto
  with * assms(2) show ?thesis by (auto simp: put_todo_def get_todo_def)
qed

lemma update_data_drops_null:
  assumes "distinct (map fst arguments)"
    and "map_of arguments k = None \<or> map_of arguments k = Some JNull"
  shows "map_of (update_data arguments) k = None"
proof -
  have "k \<notin> fst ` set (update_data arguments)"
  proof
    assume "k \<in> fst ` set (update_data arguments)"
    then obtain v where v: "(k, v) \<in> set arguments" "v \<noteq> JNull"
      by (auto simp: update_data_def)
    with assms(1) have "map_of arguments k = Some v" by (simp add: map_of_is_SomeI)
    with assms(2) v(2) show False by auto
  qed
  then show ?thesis by (simp add: map_of_eq_None_iff)
qed

lemma subscript_arguments:
  "subscript (JObj arguments) k = (case map_of arguments k of None \<Rightarrow> Inl (KeyError k) | Some v \<Rightarrow> Inr v)"
  by simp

lemma tool_results_are_text:
  "TodoMCPServer_get_todos e = Inr r \<Longrightarrow> \<exists>t. r = CallToolResult [TextContent t]"
  "TodoMCPServer_get_todo_stats e = Inr r \<Longrightarrow> \<exists>t. r = CallToolResult [TextContent t]"
  "TodoMCPServer_create_todo e arguments = Inr r \<Longrightarrow> \<exists>t. r = CallToolResult [TextContent t]"
  "TodoMCPServer_update_todo e arguments = Inr r \<Longrightarrow> \<exists>t. r = CallToolResult [TextContent t]"
  "TodoMCPServer_delete_todo e arguments = Inr r \<Longrightarrow> \<exists>t. r = CallToolResult [TextContent t]"
  "TodoMCPServer_get_todo_by_id e arguments = Inr r \<Longrightarrow> \<exists>t. r = CallToolResult [TextContent t]"
  unfolding TodoMCPServer_get_todos_def TodoMCPServer_get_todo_stats_def
    TodoMCPServer_create_todo_def TodoMCPServer_update_todo_def TodoMCPServer_delete_todo_def
    TodoMCPServer_get_todo_by_id_def and_then_def
  by (auto split: sum.splits json.splits)

lemma str_opt_json [simp]: "py_str e (json_of_str v) = str_opt v"
  by (simp add: json_of_str_def str_opt_def split: option.splits)

lemma is_true_json [simp]: "is_true (json_of_bool v) = truthy v"
  by (simp add: json_of_bool_def truthy_def split: option.splits)

lemma todo_line_todo_json:
  "todo_line e yes no (todo_json isoformat t) =
     Inr (''ID: '' @ str_int (todo_id t) @ '' | '' @ str_opt (title t) @ '' | '' @
          (if truthy (completed t) then yes else no) @ '' | '' @ str_opt (description t))"
  by (simp add: todo_line_def todo_json_def and_then_def)

lemma str_int_6: "str_int 6 = ''6''"
  by (simp add: str_int_def str_nat.simps)

lemma str_int_99: "str_int 99 = ''99''"
  by (simp add: str_int_def str_nat.simps)

lemma str_int_404: "str_int 404 = ''404''"
  by (simp add: str_int_def str_nat.simps)

section \<open>Environments for the examples\<close>

text \<open>
  Environments for the examples. The messages are texts httpx gives for a refused
  connection and for a 404 reply to \<open>GET /todos/99\<close>; no example prints a list or a
  dictionary.
\<close>

fun httpx_message :: "py_exn \<Rightarrow> string" where
  "httpx_message ConnectError = ''All connection attempts failed''"
| "httpx_message (HTTPStatusError code body) =
     ''Client error '' @ [CHR 0x27] @ ''404 Not Found'' @ [CHR 0x27] @ '' for url '' @
     [CHR 0x27] @ ''http://localhost:8001/todos/99'' @ [CHR 0x27] @ ''\<newline>'' @
     ''For more information check: https://developer.mozilla.org/en-US/docs/Web/HTTP/Status/404''"
| "httpx_message ex = []"

definition replying :: "http_outcome \<Rightarrow> env" where
  "replying out = \<lparr>http = (\<lambda>rq. out), lib_message = httpx_message, repr = (\<lambda>j. [])\<rparr>"

definition not_found_reply :: http_outcome where
  \<open>not_found_reply =
     Replied \<lparr>status_code = 404, body_text = ''{"detail":"Todo not found"}'',
              json_body = Some (JObj [(''detail'', JStr ''Todo not found'')])\<rparr>\<close>

text \<open>
  The reply of \<open>GET /todos\<close> when the collection holds one item, created with the title
  \<open>X\<close> only.
\<close>

definition timestamp :: "datetime \<Rightarrow> string" where
  "timestamp t = ''2025-01-01T00:00:00''"

definition item_X :: Todo where
  "item_X = fst (create_todo \<lparr>todos_db = [], next_id = 6\<rparr> (TodoCreate (title_only ''X'')) 0 0)"

definition list_reply :: http_outcome where
  \<open>list_reply =
     Replied \<lparr>status_code = 200,
              body_text = ''[{"id":6,"title":"X","description":null,"completed":false,'' @
                ''"created_at":"2025-01-01T00:00:00","updated_at":"2025-01-01T00:00:00"}]'',
              json_body = Some (JList [todo_json timestamp item_X])\<rparr>\<close>

lemma item_X_fields:
  "item_X = \<lparr>todo_id = 6, title = Some ''X'', description = None, completed = Some False,
             created_at = 0, updated_at = 0\<rparr>"
  by (simp add: item_X_def create_todo_def Let_def TodoCreate_def title_only_def)

lemma todo_line_item_X:
  "todo_line e yes no (todo_json timestamp item_X) = Inr (''ID: 6 | X | '' @ no @ '' | None'')"
  by (simp add: todo_line_todo_json item_X_fields str_int_6 str_opt_def truthy_def)

lemma send_list_reply: "send (replying list_reply) rq = Inr (JList [todo_json timestamp item_X])"
  by (simp add: send_def replying_def list_reply_def is_success_def)

lemma send_Unreachable: "send (replying Unreachable) rq = Inl ConnectError"
  by (simp add: send_def replying_def)

lemma send_not_found_reply:
  \<open>send (replying not_found_reply) rq = Inl (HTTPStatusError 404 ''{"detail":"Todo not found"}'')\<close>
  by (simp add: send_def replying_def not_found_reply_def is_success_def)

lemma TodoMCPServer_get_todos_list_reply:
  "TodoMCPServer_get_todos (replying list_reply) =
     Inr (CallToolResult
       [TextContent (''All Todos:'' @ ''\<newline>'' @ ''ID: 6 | X | '' @ pending_glyph @ '' | None'')])"
  by (simp add: TodoMCPServer_get_todos_def TodoMCPServer_make_request_def client_call_def
      send_list_reply and_then_def todo_line_item_X)

lemma tool_get_todos_list_reply:
  "tool_get_todos (replying list_reply) =
     Inr (''All Todos:'' @ ''\<newline>'' @ ''ID: 6 | X | '' @ mcp_pending_glyph @ '' | None'')"
  by (simp add: tool_get_todos_def make_request_def client_call_def send_list_reply
      and_then_def todo_line_item_X)

section \<open>Claims about the adapter\<close>

text \<open>
  Claim C6. The payload \<open>update_todo\<close> forwards holds exactly the arguments that are
  present and not null, the id apart: in main.py the entries of \<open>arguments\<close> other than
  \<open>id\<close> whose value is not \<open>None\<close>, in mcp\_server.py a key for each of \<open>title\<close>,
  \<open>description\<close> and \<open>completed\<close> that is not \<open>None\<close>; each tool sends one PUT
  request, with this payload as its body. In particular \<open>{id: 6, description: null}\<close>
  forwards the empty payload, and when \<open>description\<close> is absent or null the payload has
  no \<open>description\<close> key, so the PUT leaves the description of every stored item as it
  was.
\<close>

theorem update_payload_excludes_null:
  "set (update_data arguments) = {kv \<in> set arguments. fst kv \<noteq> ''id'' \<and> snd kv \<noteq> JNull}
   \<and> map_of (tool_update_data ti de co) ''title'' = map_option JStr ti
   \<and> map_of (tool_update_data ti de co) ''description'' = map_option JStr de
   \<and> map_of (tool_update_data ti de co) ''completed'' = map_option JBool co
   \<and> set (map fst (tool_update_data ti de co)) \<subseteq> {''title'', ''description'', ''completed''}
   \<and> TodoMCPServer_update_todo e arguments =
       (case map_of arguments ''id'' of
          None \<Rightarrow> Inl (KeyError ''id'')
        | Some tid \<Rightarrow>
            and_then (send e \<lparr>http_method = ''PUT'',
                              url = ''http://localhost:8001/todos/'' @ py_str e tid,
                              json_data = Some (JObj (update_data arguments))\<rparr>)
              (\<lambda>result.
            and_then (subscript result ''title'') (\<lambda>rt.
            and_then (subscript result ''id'') (\<lambda>ri.
              Inr (CallToolResult
                [TextContent (''Updated todo: '' @ py_str e rt @ '' (ID: '' @ py_str e ri @ '')'')])))))
   \<and> tool_update_todo e n ti de co =
       and_then (case send e \<lparr>http_method = ''PUT'',
                         url = ''http://localhost:8001/todos/'' @ str_int n,
                         json_data = Some (JObj (tool_update_data ti de co))\<rparr> of
              Inl ConnectError \<Rightarrow>
                Inl (Exception (''Cannot connect to FastAPI server. Make sure it'' @ [CHR 0x27] @
                       ''s running on http://localhost:8001''))
            | Inl (HTTPStatusError code body) \<Rightarrow>
                Inl (Exception (''HTTP error: '' @ str_int code @ '' - '' @ body))
            | Inl ex \<Rightarrow> Inl ex
            | Inr j \<Rightarrow> Inr j)
         (\<lambda>result.
       and_then (subscript result ''title'') (\<lambda>rt.
       and_then (subscript result ''id'') (\<lambda>ri.
         Inr (''Updated todo: '' @ py_str e rt @ '' (ID: '' @ py_str e ri @ '')''))))
   \<and> update_data [(''id'', JInt 6), (''description'', JNull)] = []
   \<and> tool_update_data None None None = []
   \<and> (distinct (map fst arguments) \<longrightarrow>
        (map_of arguments ''description'' = None \<or> map_of arguments ''description'' = Some JNull) \<longrightarrow>
        map_of (update_data arguments) ''description'' = None
        \<and> map description (todos_db (snd (put_todo s i (update_data arguments) now)))
            = map description (todos_db s))
   \<and> map description (todos_db (snd (put_todo s i (tool_update_data ti None co) now)))
        = map description (todos_db s)"
proof -
  have 1: "set (update_data arguments) = {kv \<in> set arguments. fst kv \<noteq> ''id'' \<and> snd kv \<noteq> JNull}"
    by (auto simp: update_data_def)
  have 2: "map_of (tool_update_data ti de co) ''title'' = map_option JStr ti"
    "map_of (tool_update_data ti de co) ''description'' = map_option JStr de"
    "map_of (tool_update_data ti de co) ''completed'' = map_option JBool co"
    "set (map fst (tool_update_data ti de co)) \<subseteq> {''title'', ''description'', ''completed''}"
    by (auto simp: tool_update_data_def split: option.splits)
  have 3: "TodoMCPServer_update_todo e arguments =
       (case map_of arguments ''id'' of
          None \<Rightarrow> Inl (KeyError ''id'')
        | Some tid \<Rightarrow>
            and_then (send e \<lparr>http_method = ''PUT'',
                              url = ''http://localhost:8001/todos/'' @ py_str e tid,
                              json_data = Some (JObj (update_data arguments))\<rparr>)
              (\<lambda>result.
            and_then (subscript result ''title'') (\<lambda>rt.
            and_then (subscript result ''id'') (\<lambda>ri.
              Inr (CallToolResult
                [TextContent (''Updated todo: '' @ py_str e rt @ '' (ID: '' @ py_str e ri @ '')'')])))))"
    by (simp add: TodoMCPServer_update_todo_def TodoMCPServer_make_request_def client_call_def
        and_then_def split: option.splits)
  have 4: "tool_update_todo e n ti de co =
       and_then (case send e \<lparr>http_method = ''PUT'',
                         url = ''http://localhost:8001/todos/'' @ str_int n,
                         json_data = Some (JObj (tool_update_data ti de co))\<rparr> of
              Inl ConnectError \<Rightarrow>
                Inl (Exception (''Cannot connect to FastAPI server. Make sure it'' @ [CHR 0x27] @
                       ''s running on http://localhost:8001''))
            | Inl (HTTPStatusError code body) \<Rightarrow>
                Inl (Exception (''HTTP error: '' @ str_int code @ '' - '' @ body))
            | Inl ex \<Rightarrow> Inl ex
            | Inr j \<Rightarrow> Inr j)
         (\<lambda>result.
       and_then (subscript result ''title'') (\<lambda>rt.
       and_then (subscript result ''id'') (\<lambda>ri.
         Inr (''Updated todo: '' @ py_str e rt @ '' (ID: '' @ py_str e ri @ '')''))))"
    by (simp add: tool_update_todo_def make_request_def client_call_def FASTAPI_URL_def)
  have 5: "update_data [(''id'', JInt 6), (''description'', JNull)] = []"
    "tool_update_data None None None = []"
    by (simp_all add: update_data_def tool_update_data_def)
  have 6: "map_of (update_data arguments) ''description'' = None
        \<and> map description (todos_db (snd (put_todo s i (update_data arguments) now)))
            = map description (todos_db s)"
    if "distinct (map fst arguments)"
      "map_of arguments ''description'' = None \<or> map_of arguments ''description'' = Some JNull"
  proof -
    from that have "map_of (update_data arguments) ''description'' = None"
      by (rule update_data_drops_null)
    then show ?thesis by (simp add: put_todo_keeps_description)
  qed
  have 7: "map description (todos_db (snd (put_todo s i (tool_update_data ti None co) now)))
        = map description (todos_db s)"
    by (rule put_todo_keeps_description) (simp add: tool_update_data_def split: option.splits)
  from 1 2 3 4 5 6 7 show ?thesis by blast
qed

text \<open>
  The claim at the arguments \<open>{id: 4, description: null}\<close> and the seeded store: after
  the PUT with the forwarded payload, item 4 has the description it had.
\<close>

theorem update_payload_excludes_null_witness:
  "distinct (map fst [(''id'', JInt 4), (''description'', JNull)])
   \<and> map_of [(''id'', JInt 4), (''description'', JNull)] ''description'' = Some JNull
   \<and> update_data [(''id'', JInt 4), (''description'', JNull)] = []
   \<and> map_of (update_data [(''id'', JInt 4), (''description'', JNull)]) ''description'' = None
   \<and> get_todo (startup int) 4 =
       Inr \<lparr>todo_id = 4, title = Some ''Deploy Application'',
            description = Some ''Deploy to production'', completed = Some True,
            created_at = 6, updated_at = 7\<rparr>
   \<and> get_todo (snd (put_todo (startup int) 4
                      (update_data [(''id'', JInt 4), (''description'', JNull)]) 100)) 4 =
       Inr \<lparr>todo_id = 4, title = Some ''Deploy Application'',
            description = Some ''Deploy to production'', completed = Some True,
            created_at = 6, updated_at = 100\<rparr>
   \<and> update_data [(''id'', JInt 4), (''title'', JStr ''T''), (''description'', JNull),
                   (''completed'', JBool True)]
      = [(''title'', JStr ''T''), (''completed'', JBool True)]"
  using update_payload_excludes_null[of "[(''id'', JInt 4), (''description'', JNull)]"
      None None None "replying Unreachable" 4 "startup int" 4 100]
  by (simp add: update_data_def startup_def dummy_todos_def initial_store_def get_todo_def
      put_todo_def TodoUpdate_of_body_def update_todo_def apply_update_def
      dict_exclude_unset_def)

text \<open>
  Claim C7. Every call of \<open>handle_call_tool\<close> returns one text content block. A name
  that is not a registered tool gives the text \<open>Unknown tool: \<close> followed by the name;
  an exception raised by the tool gives the text \<open>Error: \<close> followed by the
  exception's message, and is not passed on; otherwise the result is the tool's. This
  is the adapter of main.py, whose dispatch is in the repository; the tools of
  mcp\_server.py are dispatched, and their exceptions handled, by the FastMCP library.
\<close>

theorem handle_call_tool_always_text:
  "(\<exists>t. handle_call_tool e name arguments = CallToolResult [TextContent t])
   \<and> (name \<notin> set tool_names \<longrightarrow>
        handle_call_tool e name arguments = CallToolResult [TextContent (''Unknown tool: '' @ name)])
   \<and> (\<forall>ex. handle_call_tool_try e name arguments = Inl ex \<longrightarrow>
        handle_call_tool e name arguments = CallToolResult [TextContent (''Error: '' @ exn_str e ex)])
   \<and> (\<forall>r. handle_call_tool_try e name arguments = Inr r \<longrightarrow>
        handle_call_tool e name arguments = r)"
proof (intro conjI allI impI)
  show "\<exists>t. handle_call_tool e name arguments = CallToolResult [TextContent t]"
  proof (cases "handle_call_tool_try e name arguments")
    case (Inl ex)
    then show ?thesis by (simp add: handle_call_tool_def)
  next
    case (Inr r)
    then have "\<exists>t. r = CallToolResult [TextContent t]"
      unfolding handle_call_tool_try_def
      by (auto split: if_splits dest: tool_results_are_text)
    with Inr show ?thesis by (simp add: handle_call_tool_def)
  qed
next
  assume "name \<notin> set tool_names"
  then show "handle_call_tool e name arguments = CallToolResult [TextContent (''Unknown tool: '' @ name)]"
    by (simp add: handle_call_tool_def handle_call_tool_try_def tool_names_def)
next
  fix ex assume "handle_call_tool_try e name arguments = Inl ex"
  then show "handle_call_tool e name arguments = CallToolResult [TextContent (''Error: '' @ exn_str e ex)]"
    by (simp add: handle_call_tool_def)
next
  fix r assume "handle_call_tool_try e name arguments = Inr r"
  then show "handle_call_tool e name arguments = r" by (simp add: handle_call_tool_def)
qed

text \<open>
  The claim at an unknown name, at a tool whose request meets no server, and at a tool
  that succeeds.
\<close>

theorem handle_call_tool_always_text_witness:
  "''frobnicate'' \<notin> set tool_names
   \<and> handle_call_tool (replying Unreachable) ''frobnicate'' [] =
       CallToolResult [TextContent ''Unknown tool: frobnicate'']
   \<and> handle_call_tool_try (replying Unreachable) ''get_todos'' [] = Inl ConnectError
   \<and> handle_call_tool (replying Unreachable) ''get_todos'' [] =
       CallToolResult [TextContent ''Error: All connection attempts failed'']
   \<and> handle_call_tool_try (replying list_reply) ''get_todos'' [] =
       Inr (CallToolResult
         [TextContent (''All Todos:'' @ ''\<newline>'' @ ''ID: 6 | X | '' @ pending_glyph @ '' | None'')])
   \<and> handle_call_tool (replying list_reply) ''get_todos'' [] =
       CallToolResult
         [TextContent (''All Todos:'' @ ''\<newline>'' @ ''ID: 6 | X | '' @ pending_glyph @ '' | None'')]"
proof -
  have a: "''frobnicate'' \<notin> set tool_names" by (simp add: tool_names_def)
  have b: "handle_call_tool_try (replying Unreachable) ''get_todos'' [] = Inl ConnectError"
    by (simp add: handle_call_tool_try_def TodoMCPServer_get_todos_def
        TodoMCPServer_make_request_def client_call_def send_Unreachable and_then_def)
  have c: "handle_call_tool_try (replying list_reply) ''get_todos'' [] =
       Inr (CallToolResult
         [TextContent (''All Todos:'' @ ''\<newline>'' @ ''ID: 6 | X | '' @ pending_glyph @ '' | None'')])"
    by (simp add: handle_call_tool_try_def TodoMCPServer_get_todos_list_reply)
  from a handle_call_tool_always_text[of "replying Unreachable" "''frobnicate''" "[]"]
  have 1: "handle_call_tool (replying Unreachable) ''frobnicate'' [] =
       CallToolResult [TextContent (''Unknown tool: '' @ ''frobnicate'')]" by blast
  from b handle_call_tool_always_text[of "replying Unreachable" "''get_todos''" "[]"]
  have 2: "handle_call_tool (replying Unreachable) ''get_todos'' [] =
       CallToolResult [TextContent (''Error: '' @ exn_str (replying Unreachable) ConnectError)]"
    by blast
  from c handle_call_tool_always_text[of "replying list_reply" "''get_todos''" "[]"]
  have 3: "handle_call_tool (replying list_reply) ''get_todos'' [] =
       CallToolResult
         [TextContent (''All Todos:'' @ ''\<newline>'' @ ''ID: 6 | X | '' @ pending_glyph @ '' | None'')]"
    by blast
  from 2 have e2: "handle_call_tool (replying Unreachable) ''get_todos'' [] =
       CallToolResult [TextContent ''Error: All connection attempts failed'']"
    by (simp add: replying_def)
  from 1 have e1: "handle_call_tool (replying Unreachable) ''frobnicate'' [] =
       CallToolResult [TextContent ''Unknown tool: frobnicate'']" by simp
  from a b c e1 e2 3 show ?thesis by blast
qed

text \<open>
  Claim C8 fails on the code. The store sends every item with its \<open>description\<close> key,
  \<open>null\<close> when there is no description, and \<open>todo.get('description', 'No description')\<close>
  gives its default only when the key is missing: for the item created with a title
  only, both adapters print \<open>None\<close> where the claim has \<open>No description\<close>.
\<close>

theorem get_todos_prints_None:
  "description item_X = None
   \<and> todo_json timestamp item_X =
       JObj [(''id'', JInt 6), (''title'', JStr ''X''), (''description'', JNull),
             (''completed'', JBool False), (''created_at'', JStr ''2025-01-01T00:00:00''),
             (''updated_at'', JStr ''2025-01-01T00:00:00'')]
   \<and> TodoMCPServer_get_todos (replying list_reply) =
       Inr (CallToolResult
         [TextContent (''All Todos:'' @ ''\<newline>'' @ ''ID: 6 | X | '' @ pending_glyph @ '' | None'')])
   \<and> tool_get_todos (replying list_reply) =
       Inr (''All Todos:'' @ ''\<newline>'' @ ''ID: 6 | X | '' @ mcp_pending_glyph @ '' | None'')"
  by (simp add: TodoMCPServer_get_todos_list_reply tool_get_todos_list_reply item_X_fields
      todo_json_def json_of_str_def json_of_bool_def timestamp_def)

text \<open>
  What the two adapters make of a failed call, for every environment: \<open>make_request\<close>
  of mcp\_server.py raises an exception whose message names the address, or the status
  code and the body; the adapter of main.py prints the library's message.
\<close>

lemma make_request_converts:
  "client_call e m (FASTAPI_URL @ ep) d = Inl ConnectError \<Longrightarrow>
     make_request e m ep d =
       Inl (Exception (''Cannot connect to FastAPI server. Make sure it'' @ [CHR 0x27] @
              ''s running on http://localhost:8001''))"
  "client_call e m (FASTAPI_URL @ ep) d = Inl (HTTPStatusError code body) \<Longrightarrow>
     make_request e m ep d = Inl (Exception (''HTTP error: '' @ str_int code @ '' - '' @ body))"
  by (simp_all add: make_request_def)

lemma handle_call_tool_library_text:
  "handle_call_tool_try e name arguments = Inl ConnectError \<Longrightarrow>
     handle_call_tool e name arguments =
       CallToolResult [TextContent (''Error: '' @ lib_message e ConnectError)]"
  "handle_call_tool_try e name arguments = Inl (HTTPStatusError code body) \<Longrightarrow>
     handle_call_tool e name arguments =
       CallToolResult [TextContent (''Error: '' @ lib_message e (HTTPStatusError code body))]"
  by (simp_all add: handle_call_tool_def)

text \<open>
  Claim C9 fails on the adapter of main.py: its text is \<open>Error: \<close> followed by the
  message of httpx, which names neither the address (no server) nor the body of the
  response (status 404). The adapter of mcp\_server.py does what the claim says.
\<close>

theorem adapter_error_texts:
  \<open>handle_call_tool (replying Unreachable) ''get_todos'' [] =
      CallToolResult [TextContent ''Error: All connection attempts failed'']
   \<and> handle_call_tool (replying not_found_reply) ''get_todo_by_id'' [(''id'', JInt 99)] =
      CallToolResult [TextContent
        (''Error: Client error '404 Not Found' for url 'http://localhost:8001/todos/99'' @
         [CHR 0x27] @ ''\<newline>'' @
         ''For more information check: https://developer.mozilla.org/en-US/docs/Web/HTTP/Status/404'')]
   \<and> make_request (replying Unreachable) ''GET'' ''/todos'' None =
      Inl (Exception ''Cannot connect to FastAPI server. Make sure it's running on http://localhost:8001'')
   \<and> make_request (replying not_found_reply) ''GET'' ''/todos/99'' None =
      Inl (Exception ''HTTP error: 404 - {"detail":"Todo not found"}'')\<close>
proof -
  have "handle_call_tool (replying Unreachable) ''get_todos'' [] =
      CallToolResult [TextContent ''Error: All connection attempts failed'']"
    by (simp add: handle_call_tool_def handle_call_tool_try_def TodoMCPServer_get_todos_def
        TodoMCPServer_make_request_def client_call_def send_Unreachable and_then_def)
       (simp add: replying_def)
  moreover have "handle_call_tool (replying not_found_reply) ''get_todo_by_id'' [(''id'', JInt 99)] =
      CallToolResult [TextContent
        (''Error: Client error '404 Not Found' for url 'http://localhost:8001/todos/99'' @
         [CHR 0x27] @ ''\<newline>'' @
         ''For more information check: https://developer.mozilla.org/en-US/docs/Web/HTTP/Status/404'')]"
    by (simp add: handle_call_tool_def handle_call_tool_try_def TodoMCPServer_get_todo_by_id_def
        TodoMCPServer_make_request_def client_call_def send_not_found_reply and_then_def)
       (simp add: replying_def)
  moreover have "make_request (replying Unreachable) ''GET'' ''/todos'' None =
      Inl (Exception ''Cannot connect to FastAPI server. Make sure it's running on http://localhost:8001'')"
    by (simp add: make_request_def client_call_def send_Unreachable)
  moreover have \<open>make_request (replying not_found_reply) ''GET'' ''/todos/99'' None =
      Inl (Exception ''HTTP error: 404 - {"detail":"Todo not found"}'')\<close>
    by (simp add: make_request_def client_call_def send_not_found_reply str_int_404)
  ultimately show ?thesis by blast
qed

text \<open>What the fields of an accepted body are, and which bodies are accepted.\<close>

lemma str_field_cases:
  "str_field x = Some f \<Longrightarrow>
     (x = None \<longrightarrow> f = Unset) \<and> (x = Some JNull \<longrightarrow> f = Provided None)
     \<and> (\<forall>v. x = Some (JStr v) \<longrightarrow> f = Provided (Some v))"
  by (cases x rule: str_field.cases) auto

lemma bool_field_cases:
  assumes "bool_field x = Some f"
  shows "(x = None \<longrightarrow> f = Unset) \<and> (x = Some JNull \<longrightarrow> f = Provided None)
     \<and> (\<forall>v. x = Some v \<longrightarrow> v \<noteq> JNull \<longrightarrow> (\<exists>b. lax_bool v = Some b \<and> f = Provided (Some b)))"
proof (cases x)
  case None
  with assms show ?thesis by simp
next
  case (Some v)
  show ?thesis
  proof (cases "v = JNull")
    case True
    with Some assms show ?thesis by simp
  next
    case False
    then have "bool_field (Some v) = map_option (\<lambda>b. Provided (Some b)) (lax_bool v)"
      by (cases v) simp_all
    with assms Some obtain b where "lax_bool v = Some b" "f = Provided (Some b)"
      by (cases "lax_bool v") simp_all
    with Some False show ?thesis by simp
  qed
qed

lemma str_field_accepts:
  "str_field x \<noteq> None \<longleftrightarrow> x = None \<or> x = Some JNull \<or> (\<exists>v. x = Some (JStr v))"
  by (cases x rule: str_field.cases) auto

lemma bool_field_accepts:
  "bool_field x \<noteq> None \<longleftrightarrow>
     x = None \<or> x = Some JNull \<or> (\<exists>v b. x = Some v \<and> lax_bool v = Some b)"
  by (cases x rule: bool_field.cases) auto

lemma TodoUpdate_of_body_accepts:
  "TodoUpdate_of_body body \<noteq> None \<longleftrightarrow>
     str_field (map_of body ''title'') \<noteq> None
     \<and> str_field (map_of body ''description'') \<noteq> None
     \<and> bool_field (map_of body ''completed'') \<noteq> None"
  by (auto simp: TodoUpdate_of_body_def split: option.splits)

text \<open>The strings pydantic takes for a boolean are compared in lower case.\<close>

lemma bool_of_str_examples:
  "bool_of_str ''Yes'' = Some True" "bool_of_str ''OFF'' = Some False" "bool_of_str ''maybe'' = None"
  by (simp_all add: bool_of_str_def lower_ascii_def)

text \<open>
  Claim C10. For every PUT body the store accepts and every existing id, the item stored
  and returned has, for each of \<open>title\<close>, \<open>description\<close> and \<open>completed\<close>: the
  previous value when the body has no such key, \<open>None\<close> when the body gives the key as
  \<open>null\<close>, and the given value otherwise. So an omitted field and an explicit null are
  told apart, and \<open>{"title": null}\<close> or \<open>{"description": null}\<close> overwrites the
  stored value with \<open>None\<close>, whatever else the body holds. A body is accepted exactly
  when each of the three keys is absent, null or a value pydantic takes for the field;
  a body that is not accepted gets the 422 reply and changes nothing. The statement is
  about the stored item and the item the handler returns; what FastAPI then sends for an
  item whose title is \<open>None\<close> under \<open>response_model=Todo\<close> is not modelled.
\<close>

theorem explicit_null_overwrites:
  "(\<forall>u t. TodoUpdate_of_body body = Some u \<longrightarrow> get_todo s i = Inr t \<longrightarrow>
      (\<exists>r. fst (put_todo s i body now) = Inr r
         \<and> get_todo (snd (put_todo s i body now)) i = Inr r
         \<and> (map_of body ''title'' = None \<longrightarrow> title r = title t)
         \<and> (map_of body ''title'' = Some JNull \<longrightarrow> title r = None)
         \<and> (\<forall>v. map_of body ''title'' = Some (JStr v) \<longrightarrow> title r = Some v)
         \<and> (map_of body ''description'' = None \<longrightarrow> description r = description t)
         \<and> (map_of body ''description'' = Some JNull \<longrightarrow> description r = None)
         \<and> (\<forall>v. map_of body ''description'' = Some (JStr v) \<longrightarrow> description r = Some v)
         \<and> (map_of body ''completed'' = None \<longrightarrow> completed r = completed t)
         \<and> (map_of body ''completed'' = Some JNull \<longrightarrow> completed r = None)
         \<and> (\<forall>b. map_of body ''completed'' = Some (JBool b) \<longrightarrow> completed r = Some b)
         \<and> (\<forall>v. map_of body ''completed'' = Some v \<longrightarrow> v \<noteq> JNull \<longrightarrow>
               completed r = lax_bool v)))
   \<and> (TodoUpdate_of_body body \<noteq> None \<longleftrightarrow>
        (map_of body ''title'' = None \<or> map_of body ''title'' = Some JNull
           \<or> (\<exists>v. map_of body ''title'' = Some (JStr v)))
        \<and> (map_of body ''description'' = None \<or> map_of body ''description'' = Some JNull
           \<or> (\<exists>v. map_of body ''description'' = Some (JStr v)))
        \<and> (map_of body ''completed'' = None \<or> map_of body ''completed'' = Some JNull
           \<or> (\<exists>v b. map_of body ''completed'' = Some v \<and> lax_bool v = Some b)))
   \<and> (TodoUpdate_of_body body = None \<longrightarrow>
        put_todo s i body now = (Inl (HTTPException 422 ''Unprocessable Entity''), s))"
proof (intro conjI allI impI)
  fix u t assume u: "TodoUpdate_of_body body = Some u" and t: "get_todo s i = Inr t"
  from put_todo_present[OF t u, of now]
  have r: "fst (put_todo s i body now) = Inr (apply_update u now t)"
    "get_todo (snd (put_todo s i body now)) i = Inr (apply_update u now t)"
    by auto
  from TodoUpdate_of_body_fields[OF u]
  have f: "str_field (map_of body ''title'') = Some (tu_title u)"
    "str_field (map_of body ''description'') = Some (tu_description u)"
    "bool_field (map_of body ''completed'') = Some (tu_completed u)" by simp_all
  note c = str_field_cases[OF f(1)] str_field_cases[OF f(2)] bool_field_cases[OF f(3)]
  have "(map_of body ''title'' = None \<longrightarrow> title (apply_update u now t) = title t)
         \<and> (map_of body ''title'' = Some JNull \<longrightarrow> title (apply_update u now t) = None)
         \<and> (\<forall>v. map_of body ''title'' = Some (JStr v) \<longrightarrow> title (apply_update u now t) = Some v)"
    using c(1) by (auto simp: title_apply_update)
  moreover have "(map_of body ''description'' = None \<longrightarrow>
            description (apply_update u now t) = description t)
         \<and> (map_of body ''description'' = Some JNull \<longrightarrow> description (apply_update u now t) = None)
         \<and> (\<forall>v. map_of body ''description'' = Some (JStr v) \<longrightarrow>
               description (apply_update u now t) = Some v)"
    using c(2) by (auto simp: description_apply_update)
  moreover have "(map_of body ''completed'' = None \<longrightarrow>
            completed (apply_update u now t) = completed t)
         \<and> (map_of body ''completed'' = Some JNull \<longrightarrow> completed (apply_update u now t) = None)
         \<and> (\<forall>b. map_of body ''completed'' = Some (JBool b) \<longrightarrow>
               completed (apply_update u now t) = Some b)
         \<and> (\<forall>v. map_of body ''completed'' = Some v \<longrightarrow> v \<noteq> JNull \<longrightarrow>
               completed (apply_update u now t) = lax_bool v)"
    using c(3) by (auto simp: completed_apply_update)
  ultimately show "\<exists>r. fst (put_todo s i body now) = Inr r
         \<and> get_todo (snd (put_todo s i body now)) i = Inr r
         \<and> (map_of body ''title'' = None \<longrightarrow> title r = title t)
         \<and> (map_of body ''title'' = Some JNull \<longrightarrow> title r = None)
         \<and> (\<forall>v. map_of body ''title'' = Some (JStr v) \<longrightarrow> title r = Some v)
         \<and> (map_of body ''description'' = None \<longrightarrow> description r = description t)
         \<and> (map_of body ''description'' = Some JNull \<longrightarrow> description r = None)
         \<and> (\<forall>v. map_of body ''description'' = Some (JStr v) \<longrightarrow> description r = Some v)
         \<and> (map_of body ''completed'' = None \<longrightarrow> completed r = completed t)
         \<and> (map_of body ''completed'' = Some JNull \<longrightarrow> completed r = None)
         \<and> (\<forall>b. map_of body ''completed'' = Some (JBool b) \<longrightarrow> completed r = Some b)
         \<and> (\<forall>v. map_of body ''completed'' = Some v \<longrightarrow> v \<noteq> JNull \<longrightarrow>
               completed r = lax_bool v)"
    using r by (intro exI[of _ "apply_update u now t"]) blast
next
  show "TodoUpdate_of_body body \<noteq> None \<longleftrightarrow>
        (map_of body ''title'' = None \<or> map_of body ''title'' = Some JNull
           \<or> (\<exists>v. map_of body ''title'' = Some (JStr v)))
        \<and> (map_of body ''description'' = None \<or> map_of body ''description'' = Some JNull
           \<or> (\<exists>v. map_of body ''description'' = Some (JStr v)))
        \<and> (map_of body ''completed'' = None \<or> map_of body ''completed'' = Some JNull
           \<or> (\<exists>v b. map_of body ''completed'' = Some v \<and> lax_bool v = Some b))"
    by (simp only: TodoUpdate_of_body_accepts str_field_accepts bool_field_accepts)
next
  assume "TodoUpdate_of_body body = None"
  then show "put_todo s i body now = (Inl (HTTPException 422 ''Unprocessable Entity''), s)"
    by (simp add: put_todo_def unprocessable_def)
qed

text \<open>
  The claim at item 4 of the seeded store, for the bodies \<open>{"title": null, "completed": 0}\<close>,
  \<open>{"completed": null}\<close>, \<open>{"description": null}\<close>, the empty body, and the body
  \<open>{"title": 5}\<close>, which is rejected.
\<close>

theorem explicit_null_overwrites_witness:
  "TodoUpdate_of_body [(''title'', JNull), (''completed'', JInt 0)] =
      Some \<lparr>tu_title = Provided None, tu_description = Unset,
            tu_completed = Provided (Some False)\<rparr>
   \<and> get_todo (startup int) 4 =
     Inr \<lparr>todo_id = 4, title = Some ''Deploy Application'',
          description = Some ''Deploy to production'', completed = Some True,
          created_at = 6, updated_at = 7\<rparr>
   \<and> map_of [(''title'', JNull), (''completed'', JInt 0)] ''title'' = Some JNull
   \<and> get_todo (snd (put_todo (startup int) 4 [(''title'', JNull), (''completed'', JInt 0)] 100)) 4 =
     Inr \<lparr>todo_id = 4, title = None,
          description = Some ''Deploy to production'', completed = Some False,
          created_at = 6, updated_at = 100\<rparr>
   \<and> get_todo (snd (put_todo (startup int) 4 [(''completed'', JNull)] 100)) 4 =
     Inr \<lparr>todo_id = 4, title = Some ''Deploy Application'',
          description = Some ''Deploy to production'', completed = None,
          created_at = 6, updated_at = 100\<rparr>
   \<and> get_todo (snd (put_todo (startup int) 4 [(''description'', JNull)] 100)) 4 =
     Inr \<lparr>todo_id = 4, title = Some ''Deploy Application'',
          description = None, completed = Some True,
          created_at = 6, updated_at = 100\<rparr>
   \<and> get_todo (snd (put_todo (startup int) 4 [] 100)) 4 =
     Inr \<lparr>todo_id = 4, title = Some ''Deploy Application'',
          description = Some ''Deploy to production'', completed = Some True,
          created_at = 6, updated_at = 100\<rparr>
   \<and> TodoUpdate_of_body [(''completed'', JStr ''Yes'')] =
      Some \<lparr>tu_title = Unset, tu_description = Unset, tu_completed = Provided (Some True)\<rparr>
   \<and> TodoUpdate_of_body [(''completed'', JInt 2)] = None
   \<and> TodoUpdate_of_body [(''title'', JInt 5)] = None
   \<and> put_todo (startup int) 4 [(''title'', JInt 5)] 100 =
       (Inl (HTTPException 422 ''Unprocessable Entity''), startup int)"
  using explicit_null_overwrites[of "[(''title'', JNull), (''completed'', JInt 0)]" "startup int" 4 100]
    explicit_null_overwrites[of "[(''completed'', JNull)]" "startup int" 4 100]
    explicit_null_overwrites[of "[(''title'', JInt 5)]" "startup int" 4 100]
  by (simp add: startup_def dummy_todos_def initial_store_def get_todo_def put_todo_def
      TodoUpdate_of_body_def update_todo_def apply_update_def dict_exclude_unset_def
      bool_of_str_examples unprocessable_def)

end
